theory Spec2Isabelle
  imports Complex_Main "HOL-Library.Sublist"
begin

section \<open>Strings of the JavaScript runtime\<close>

text \<open>
  A JavaScript string is a sequence of 16-bit code units. It is modelled as the list of code
  points its iterator yields: a surrogate pair is one element (the code point above
  \<^verbatim>\<open>0xFFFF\<close>), an unpaired surrogate is an element of its own. Every string is exactly one
  such list; a list in which a high surrogate stands directly before a low one stands for no
  string, and the functions below are total on it all the same. Concatenation is \<open>@\<close>: the
  source only ever puts ASCII text between the strings it joins. \<open>ascii\<close> embeds the
  literals of the source.
\<close>

type_synonym jstring = "nat list"

definition ascii :: "string \<Rightarrow> jstring" where
  "ascii s = map of_char s"

text \<open>
  \<^verbatim>\<open>String.prototype.trim\<close> strips the code points of WhiteSpace and LineTerminator from both
  ends: TAB, LF, VT, FF, CR, SPACE, NO-BREAK SPACE, the other space separators (category Zs:
  \<^verbatim>\<open>U+1680\<close>, \<^verbatim>\<open>U+2000\<close> to \<^verbatim>\<open>U+200A\<close>, \<^verbatim>\<open>U+202F\<close>, \<^verbatim>\<open>U+205F\<close>, \<^verbatim>\<open>U+3000\<close>), the line and
  paragraph separators \<^verbatim>\<open>U+2028\<close> and \<^verbatim>\<open>U+2029\<close>, and the byte order mark \<^verbatim>\<open>U+FEFF\<close>.
\<close>

definition WhiteSpace_points :: "nat list" where
  "WhiteSpace_points =
     [0x09, 0x0A, 0x0B, 0x0C, 0x0D, 0x20, 0xA0, 0x1680,
      0x2000, 0x2001, 0x2002, 0x2003, 0x2004, 0x2005, 0x2006, 0x2007, 0x2008, 0x2009, 0x200A,
      0x2028, 0x2029, 0x202F, 0x205F, 0x3000, 0xFEFF]"

definition isWhiteSpace :: "nat \<Rightarrow> bool" where
  "isWhiteSpace c = (c \<in> set WhiteSpace_points)"

definition trim :: "jstring \<Rightarrow> jstring" where
  "trim s = rev (dropWhile isWhiteSpace (rev (dropWhile isWhiteSpace s)))"

text \<open>
  \<^verbatim>\<open>String.prototype.toUpperCase\<close> replaces every code point by its upper-case mapping of the
  Unicode character database: the simple mapping of \<^verbatim>\<open>UnicodeData.txt\<close>, or the unconditional
  one of \<^verbatim>\<open>SpecialCasing.txt\<close>, which can be longer than one code point (\<^verbatim>\<open>U+00DF\<close> becomes
  \<^verbatim>\<open>SS\<close>). A code point with no mapping, an unpaired surrogate among them, stays. The table is
  that of Unicode 14.0, all 1525 code points that have a mapping, in ascending order, cut
  into blocks; \<open>upper_lookup\<close> finds the block of a code point by the last key of each.
\<close>

definition upper_block_00 :: "(nat \<times> nat list) list" where
  "upper_block_00 =
    [(0x61, [0x41]), (0x62, [0x42]), (0x63, [0x43]), (0x64, [0x44]), (0x65, [0x45]),
     (0x66, [0x46]), (0x67, [0x47]), (0x68, [0x48]), (0x69, [0x49]), (0x6A, [0x4A]),
     (0x6B, [0x4B]), (0x6C, [0x4C]), (0x6D, [0x4D]), (0x6E, [0x4E]), (0x6F, [0x4F]),
     (0x70, [0x50]), (0x71, [0x51]), (0x72, [0x52]), (0x73, [0x53]), (0x74, [0x54]),
     (0x75, [0x55]), (0x76, [0x56]), (0x77, [0x57]), (0x78, [0x58]), (0x79, [0x59]),
     (0x7A, [0x5A])]"

definition upper_block_01 :: "(nat \<times> nat list) list" where
  "upper_block_01 =
    [(0xB5, [0x39C]), (0xDF, [0x53, 0x53]), (0xE0, [0xC0]), (0xE1, [0xC1]), (0xE2, [0xC2]),
     (0xE3, [0xC3]), (0xE4, [0xC4]), (0xE5, [0xC5]), (0xE6, [0xC6]), (0xE7, [0xC7]),
     (0xE8, [0xC8]), (0xE9, [0xC9]), (0xEA, [0xCA]), (0xEB, [0xCB]), (0xEC, [0xCC]),
     (0xED, [0xCD]), (0xEE, [0xCE]), (0xEF, [0xCF]), (0xF0, [0xD0]), (0xF1, [0xD1]),
     (0xF2, [0xD2]), (0xF3, [0xD3]), (0xF4, [0xD4]), (0xF5, [0xD5]), (0xF6, [0xD6]),
     (0xF8, [0xD8]), (0xF9, [0xD9]), (0xFA, [0xDA]), (0xFB, [0xDB]), (0xFC, [0xDC]),
     (0xFD, [0xDD]), (0xFE, [0xDE]), (0xFF, [0x178])]"

definition upper_block_02 :: "(nat \<times> nat list) list" where
  "upper_block_02 =
    [(0x101, [0x100]), (0x103, [0x102]), (0x105, [0x104]), (0x107, [0x106]), (0x109, [0x108]),
     (0x10B, [0x10A]), (0x10D, [0x10C]), (0x10F, [0x10E]), (0x111, [0x110]), (0x113, [0x112]),
     (0x115, [0x114]), (0x117, [0x116]), (0x119, [0x118]), (0x11B, [0x11A]), (0x11D, [0x11C]),
     (0x11F, [0x11E]), (0x121, [0x120]), (0x123, [0x122]), (0x125, [0x124]), (0x127, [0x126]),
     (0x129, [0x128]), (0x12B, [0x12A]), (0x12D, [0x12C]), (0x12F, [0x12E]), (0x131, [0x49]),
     (0x133, [0x132]), (0x135, [0x134]), (0x137, [0x136]), (0x13A, [0x139]), (0x13C, [0x13B]),
     (0x13E, [0x13D]), (0x140, [0x13F]), (0x142, [0x141]), (0x144, [0x143]), (0x146, [0x145]),
     (0x148, [0x147]), (0x149, [0x2BC, 0x4E]), (0x14B, [0x14A]), (0x14D, [0x14C]),
     (0x14F, [0x14E]), (0x151, [0x150]), (0x153, [0x152]), (0x155, [0x154]), (0x157, [0x156]),
     (0x159, [0x158]), (0x15B, [0x15A]), (0x15D, [0x15C]), (0x15F, [0x15E])]"

definition upper_block_03 :: "(nat \<times> nat list) list" where
  "upper_block_03 =
    [(0x161, [0x160]), (0x163, [0x162]), (0x165, [0x164]), (0x167, [0x166]), (0x169, [0x168]),
     (0x16B, [0x16A]), (0x16D, [0x16C]), (0x16F, [0x16E]), (0x171, [0x170]), (0x173, [0x172]),
     (0x175, [0x174]), (0x177, [0x176]), (0x17A, [0x179]), (0x17C, [0x17B]), (0x17E, [0x17D]),
     (0x17F, [0x53])]"

definition upper_block_04 :: "(nat \<times> nat list) list" where
  "upper_block_04 =
    [(0x180, [0x243]), (0x183, [0x182]), (0x185, [0x184]), (0x188, [0x187]), (0x18C, [0x18B]),
     (0x192, [0x191]), (0x195, [0x1F6]), (0x199, [0x198]), (0x19A, [0x23D]), (0x19E, [0x220]),
     (0x1A1, [0x1A0]), (0x1A3, [0x1A2]), (0x1A5, [0x1A4]), (0x1A8, [0x1A7]), (0x1AD, [0x1AC]),
     (0x1B0, [0x1AF]), (0x1B4, [0x1B3]), (0x1B6, [0x1B5]), (0x1B9, [0x1B8]), (0x1BD, [0x1BC]),
     (0x1BF, [0x1F7]), (0x1C5, [0x1C4]), (0x1C6, [0x1C4]), (0x1C8, [0x1C7]), (0x1C9, [0x1C7]),
     (0x1CB, [0x1CA]), (0x1CC, [0x1CA]), (0x1CE, [0x1CD]), (0x1D0, [0x1CF]), (0x1D2, [0x1D1]),
     (0x1D4, [0x1D3]), (0x1D6, [0x1D5]), (0x1D8, [0x1D7]), (0x1DA, [0x1D9]), (0x1DC, [0x1DB]),
     (0x1DD, [0x18E]), (0x1DF, [0x1DE]), (0x1E1, [0x1E0]), (0x1E3, [0x1E2]), (0x1E5, [0x1E4]),
     (0x1E7, [0x1E6]), (0x1E9, [0x1E8]), (0x1EB, [0x1EA]), (0x1ED, [0x1EC]), (0x1EF, [0x1EE]),
     (0x1F0, [0x4A, 0x30C]), (0x1F2, [0x1F1]), (0x1F3, [0x1F1])]"

definition upper_block_05 :: "(nat \<times> nat list) list" where
  "upper_block_05 =
    [(0x1F5, [0x1F4]), (0x1F9, [0x1F8]), (0x1FB, [0x1FA]), (0x1FD, [0x1FC]), (0x1FF, [0x1FE]),
     (0x201, [0x200]), (0x203, [0x202]), (0x205, [0x204]), (0x207, [0x206]), (0x209, [0x208]),
     (0x20B, [0x20A]), (0x20D, [0x20C]), (0x20F, [0x20E]), (0x211, [0x210]), (0x213, [0x212]),
     (0x215, [0x214]), (0x217, [0x216]), (0x219, [0x218]), (0x21B, [0x21A]), (0x21D, [0x21C]),
     (0x21F, [0x21E]), (0x223, [0x222]), (0x225, [0x224]), (0x227, [0x226]), (0x229, [0x228]),
     (0x22B, [0x22A]), (0x22D, [0x22C]), (0x22F, [0x22E]), (0x231, [0x230]), (0x233, [0x232]),
     (0x23C, [0x23B]), (0x23F, [0x2C7E]), (0x240, [0x2C7F]), (0x242, [0x241]), (0x247, [0x246]),
     (0x249, [0x248]), (0x24B, [0x24A]), (0x24D, [0x24C]), (0x24F, [0x24E])]"

definition upper_block_06 :: "(nat \<times> nat list) list" where
  "upper_block_06 =
    [(0x250, [0x2C6F]), (0x251, [0x2C6D]), (0x252, [0x2C70]), (0x253, [0x181]),
     (0x254, [0x186]), (0x256, [0x189]), (0x257, [0x18A]), (0x259, [0x18F]), (0x25B, [0x190]),
     (0x25C, [0xA7AB]), (0x260, [0x193]), (0x261, [0xA7AC]), (0x263, [0x194]),
     (0x265, [0xA78D]), (0x266, [0xA7AA]), (0x268, [0x197]), (0x269, [0x196]),
     (0x26A, [0xA7AE]), (0x26B, [0x2C62]), (0x26C, [0xA7AD]), (0x26F, [0x19C]),
     (0x271, [0x2C6E]), (0x272, [0x19D]), (0x275, [0x19F]), (0x27D, [0x2C64]), (0x280, [0x1A6]),
     (0x282, [0xA7C5]), (0x283, [0x1A9]), (0x287, [0xA7B1]), (0x288, [0x1AE]), (0x289, [0x244]),
     (0x28A, [0x1B1]), (0x28B, [0x1B2]), (0x28C, [0x245]), (0x292, [0x1B7]), (0x29D, [0xA7B2]),
     (0x29E, [0xA7B0])]"

definition upper_block_07 :: "(nat \<times> nat list) list" where
  "upper_block_07 =
    [(0x345, [0x399])]"

definition upper_block_08 :: "(nat \<times> nat list) list" where
  "upper_block_08 =
    [(0x371, [0x370]), (0x373, [0x372]), (0x377, [0x376]), (0x37B, [0x3FD]), (0x37C, [0x3FE]),
     (0x37D, [0x3FF]), (0x390, [0x399, 0x308, 0x301]), (0x3AC, [0x386]), (0x3AD, [0x388]),
     (0x3AE, [0x389]), (0x3AF, [0x38A]), (0x3B0, [0x3A5, 0x308, 0x301]), (0x3B1, [0x391]),
     (0x3B2, [0x392]), (0x3B3, [0x393]), (0x3B4, [0x394]), (0x3B5, [0x395]), (0x3B6, [0x396]),
     (0x3B7, [0x397]), (0x3B8, [0x398]), (0x3B9, [0x399]), (0x3BA, [0x39A]), (0x3BB, [0x39B]),
     (0x3BC, [0x39C]), (0x3BD, [0x39D]), (0x3BE, [0x39E]), (0x3BF, [0x39F]), (0x3C0, [0x3A0]),
     (0x3C1, [0x3A1]), (0x3C2, [0x3A3]), (0x3C3, [0x3A3]), (0x3C4, [0x3A4]), (0x3C5, [0x3A5]),
     (0x3C6, [0x3A6]), (0x3C7, [0x3A7]), (0x3C8, [0x3A8]), (0x3C9, [0x3A9]), (0x3CA, [0x3AA]),
     (0x3CB, [0x3AB]), (0x3CC, [0x38C]), (0x3CD, [0x38E]), (0x3CE, [0x38F]), (0x3D0, [0x392]),
     (0x3D1, [0x398]), (0x3D5, [0x3A6]), (0x3D6, [0x3A0]), (0x3D7, [0x3CF]), (0x3D9, [0x3D8])]"

definition upper_block_09 :: "(nat \<times> nat list) list" where
  "upper_block_09 =
    [(0x3DB, [0x3DA]), (0x3DD, [0x3DC]), (0x3DF, [0x3DE]), (0x3E1, [0x3E0]), (0x3E3, [0x3E2]),
     (0x3E5, [0x3E4]), (0x3E7, [0x3E6]), (0x3E9, [0x3E8]), (0x3EB, [0x3EA]), (0x3ED, [0x3EC]),
     (0x3EF, [0x3EE]), (0x3F0, [0x39A]), (0x3F1, [0x3A1]), (0x3F2, [0x3F9]), (0x3F3, [0x37F]),
     (0x3F5, [0x395]), (0x3F8, [0x3F7]), (0x3FB, [0x3FA])]"

definition upper_block_10 :: "(nat \<times> nat list) list" where
  "upper_block_10 =
    [(0x430, [0x410]), (0x431, [0x411]), (0x432, [0x412]), (0x433, [0x413]), (0x434, [0x414]),
     (0x435, [0x415]), (0x436, [0x416]), (0x437, [0x417]), (0x438, [0x418]), (0x439, [0x419]),
     (0x43A, [0x41A]), (0x43B, [0x41B]), (0x43C, [0x41C]), (0x43D, [0x41D]), (0x43E, [0x41E]),
     (0x43F, [0x41F]), (0x440, [0x420]), (0x441, [0x421]), (0x442, [0x422]), (0x443, [0x423]),
     (0x444, [0x424]), (0x445, [0x425]), (0x446, [0x426]), (0x447, [0x427]), (0x448, [0x428]),
     (0x449, [0x429]), (0x44A, [0x42A]), (0x44B, [0x42B]), (0x44C, [0x42C]), (0x44D, [0x42D]),
     (0x44E, [0x42E]), (0x44F, [0x42F]), (0x450, [0x400]), (0x451, [0x401]), (0x452, [0x402]),
     (0x453, [0x403]), (0x454, [0x404]), (0x455, [0x405]), (0x456, [0x406]), (0x457, [0x407]),
     (0x458, [0x408]), (0x459, [0x409]), (0x45A, [0x40A]), (0x45B, [0x40B]), (0x45C, [0x40C]),
     (0x45D, [0x40D]), (0x45E, [0x40E]), (0x45F, [0x40F])]"

definition upper_block_11 :: "(nat \<times> nat list) list" where
  "upper_block_11 =
    [(0x461, [0x460]), (0x463, [0x462]), (0x465, [0x464]), (0x467, [0x466]), (0x469, [0x468]),
     (0x46B, [0x46A]), (0x46D, [0x46C]), (0x46F, [0x46E]), (0x471, [0x470]), (0x473, [0x472]),
     (0x475, [0x474]), (0x477, [0x476]), (0x479, [0x478]), (0x47B, [0x47A]), (0x47D, [0x47C]),
     (0x47F, [0x47E]), (0x481, [0x480]), (0x48B, [0x48A]), (0x48D, [0x48C]), (0x48F, [0x48E]),
     (0x491, [0x490]), (0x493, [0x492]), (0x495, [0x494]), (0x497, [0x496]), (0x499, [0x498]),
     (0x49B, [0x49A]), (0x49D, [0x49C]), (0x49F, [0x49E]), (0x4A1, [0x4A0]), (0x4A3, [0x4A2]),
     (0x4A5, [0x4A4]), (0x4A7, [0x4A6]), (0x4A9, [0x4A8]), (0x4AB, [0x4AA]), (0x4AD, [0x4AC]),
     (0x4AF, [0x4AE]), (0x4B1, [0x4B0]), (0x4B3, [0x4B2]), (0x4B5, [0x4B4]), (0x4B7, [0x4B6]),
     (0x4B9, [0x4B8]), (0x4BB, [0x4BA]), (0x4BD, [0x4BC]), (0x4BF, [0x4BE]), (0x4C2, [0x4C1]),
     (0x4C4, [0x4C3]), (0x4C6, [0x4C5]), (0x4C8, [0x4C7])]"

definition upper_block_12 :: "(nat \<times> nat list) list" where
  "upper_block_12 =
    [(0x4CA, [0x4C9]), (0x4CC, [0x4CB]), (0x4CE, [0x4CD]), (0x4CF, [0x4C0]), (0x4D1, [0x4D0]),
     (0x4D3, [0x4D2]), (0x4D5, [0x4D4]), (0x4D7, [0x4D6]), (0x4D9, [0x4D8]), (0x4DB, [0x4DA]),
     (0x4DD, [0x4DC]), (0x4DF, [0x4DE]), (0x4E1, [0x4E0]), (0x4E3, [0x4E2]), (0x4E5, [0x4E4]),
     (0x4E7, [0x4E6]), (0x4E9, [0x4E8]), (0x4EB, [0x4EA]), (0x4ED, [0x4EC]), (0x4EF, [0x4EE]),
     (0x4F1, [0x4F0]), (0x4F3, [0x4F2]), (0x4F5, [0x4F4]), (0x4F7, [0x4F6]), (0x4F9, [0x4F8]),
     (0x4FB, [0x4FA]), (0x4FD, [0x4FC]), (0x4FF, [0x4FE])]"

definition upper_block_13 :: "(nat \<times> nat list) list" where
  "upper_block_13 =
    [(0x501, [0x500]), (0x503, [0x502]), (0x505, [0x504]), (0x507, [0x506]), (0x509, [0x508]),
     (0x50B, [0x50A]), (0x50D, [0x50C]), (0x50F, [0x50E]), (0x511, [0x510]), (0x513, [0x512]),
     (0x515, [0x514]), (0x517, [0x516]), (0x519, [0x518]), (0x51B, [0x51A]), (0x51D, [0x51C]),
     (0x51F, [0x51E]), (0x521, [0x520]), (0x523, [0x522]), (0x525, [0x524]), (0x527, [0x526]),
     (0x529, [0x528]), (0x52B, [0x52A]), (0x52D, [0x52C]), (0x52F, [0x52E])]"

definition upper_block_14 :: "(nat \<times> nat list) list" where
  "upper_block_14 =
    [(0x561, [0x531]), (0x562, [0x532]), (0x563, [0x533]), (0x564, [0x534]), (0x565, [0x535]),
     (0x566, [0x536]), (0x567, [0x537]), (0x568, [0x538]), (0x569, [0x539]), (0x56A, [0x53A]),
     (0x56B, [0x53B]), (0x56C, [0x53C]), (0x56D, [0x53D]), (0x56E, [0x53E]), (0x56F, [0x53F]),
     (0x570, [0x540]), (0x571, [0x541]), (0x572, [0x542]), (0x573, [0x543]), (0x574, [0x544]),
     (0x575, [0x545]), (0x576, [0x546]), (0x577, [0x547]), (0x578, [0x548]), (0x579, [0x549]),
     (0x57A, [0x54A]), (0x57B, [0x54B]), (0x57C, [0x54C]), (0x57D, [0x54D]), (0x57E, [0x54E]),
     (0x57F, [0x54F]), (0x580, [0x550]), (0x581, [0x551]), (0x582, [0x552]), (0x583, [0x553]),
     (0x584, [0x554]), (0x585, [0x555]), (0x586, [0x556]), (0x587, [0x535, 0x552])]"

definition upper_block_15 :: "(nat \<times> nat list) list" where
  "upper_block_15 =
    [(0x10D0, [0x1C90]), (0x10D1, [0x1C91]), (0x10D2, [0x1C92]), (0x10D3, [0x1C93]),
     (0x10D4, [0x1C94]), (0x10D5, [0x1C95]), (0x10D6, [0x1C96]), (0x10D7, [0x1C97]),
     (0x10D8, [0x1C98]), (0x10D9, [0x1C99]), (0x10DA, [0x1C9A]), (0x10DB, [0x1C9B]),
     (0x10DC, [0x1C9C]), (0x10DD, [0x1C9D]), (0x10DE, [0x1C9E]), (0x10DF, [0x1C9F]),
     (0x10E0, [0x1CA0]), (0x10E1, [0x1CA1]), (0x10E2, [0x1CA2]), (0x10E3, [0x1CA3]),
     (0x10E4, [0x1CA4]), (0x10E5, [0x1CA5]), (0x10E6, [0x1CA6]), (0x10E7, [0x1CA7]),
     (0x10E8, [0x1CA8]), (0x10E9, [0x1CA9]), (0x10EA, [0x1CAA]), (0x10EB, [0x1CAB]),
     (0x10EC, [0x1CAC]), (0x10ED, [0x1CAD]), (0x10EE, [0x1CAE]), (0x10EF, [0x1CAF]),
     (0x10F0, [0x1CB0]), (0x10F1, [0x1CB1]), (0x10F2, [0x1CB2]), (0x10F3, [0x1CB3]),
     (0x10F4, [0x1CB4]), (0x10F5, [0x1CB5]), (0x10F6, [0x1CB6]), (0x10F7, [0x1CB7]),
     (0x10F8, [0x1CB8]), (0x10F9, [0x1CB9]), (0x10FA, [0x1CBA]), (0x10FD, [0x1CBD]),
     (0x10FE, [0x1CBE]), (0x10FF, [0x1CBF])]"

definition upper_block_16 :: "(nat \<times> nat list) list" where
  "upper_block_16 =
    [(0x13F8, [0x13F0]), (0x13F9, [0x13F1]), (0x13FA, [0x13F2]), (0x13FB, [0x13F3]),
     (0x13FC, [0x13F4]), (0x13FD, [0x13F5])]"

definition upper_block_17 :: "(nat \<times> nat list) list" where
  "upper_block_17 =
    [(0x1C80, [0x412]), (0x1C81, [0x414]), (0x1C82, [0x41E]), (0x1C83, [0x421]),
     (0x1C84, [0x422]), (0x1C85, [0x422]), (0x1C86, [0x42A]), (0x1C87, [0x462]),
     (0x1C88, [0xA64A])]"

definition upper_block_18 :: "(nat \<times> nat list) list" where
  "upper_block_18 =
    [(0x1D79, [0xA77D]), (0x1D7D, [0x2C63]), (0x1D8E, [0xA7C6])]"

definition upper_block_19 :: "(nat \<times> nat list) list" where
  "upper_block_19 =
    [(0x1E01, [0x1E00]), (0x1E03, [0x1E02]), (0x1E05, [0x1E04]), (0x1E07, [0x1E06]),
     (0x1E09, [0x1E08]), (0x1E0B, [0x1E0A]), (0x1E0D, [0x1E0C]), (0x1E0F, [0x1E0E]),
     (0x1E11, [0x1E10]), (0x1E13, [0x1E12]), (0x1E15, [0x1E14]), (0x1E17, [0x1E16]),
     (0x1E19, [0x1E18]), (0x1E1B, [0x1E1A]), (0x1E1D, [0x1E1C]), (0x1E1F, [0x1E1E]),
     (0x1E21, [0x1E20]), (0x1E23, [0x1E22]), (0x1E25, [0x1E24]), (0x1E27, [0x1E26]),
     (0x1E29, [0x1E28]), (0x1E2B, [0x1E2A]), (0x1E2D, [0x1E2C]), (0x1E2F, [0x1E2E]),
     (0x1E31, [0x1E30]), (0x1E33, [0x1E32]), (0x1E35, [0x1E34]), (0x1E37, [0x1E36]),
     (0x1E39, [0x1E38]), (0x1E3B, [0x1E3A]), (0x1E3D, [0x1E3C]), (0x1E3F, [0x1E3E]),
     (0x1E41, [0x1E40]), (0x1E43, [0x1E42]), (0x1E45, [0x1E44]), (0x1E47, [0x1E46]),
     (0x1E49, [0x1E48]), (0x1E4B, [0x1E4A]), (0x1E4D, [0x1E4C]), (0x1E4F, [0x1E4E]),
     (0x1E51, [0x1E50]), (0x1E53, [0x1E52]), (0x1E55, [0x1E54]), (0x1E57, [0x1E56]),
     (0x1E59, [0x1E58]), (0x1E5B, [0x1E5A]), (0x1E5D, [0x1E5C]), (0x1E5F, [0x1E5E])]"

definition upper_block_20 :: "(nat \<times> nat list) list" where
  "upper_block_20 =
    [(0x1E61, [0x1E60]), (0x1E63, [0x1E62]), (0x1E65, [0x1E64]), (0x1E67, [0x1E66]),
     (0x1E69, [0x1E68]), (0x1E6B, [0x1E6A]), (0x1E6D, [0x1E6C]), (0x1E6F, [0x1E6E]),
     (0x1E71, [0x1E70]), (0x1E73, [0x1E72]), (0x1E75, [0x1E74]), (0x1E77, [0x1E76]),
     (0x1E79, [0x1E78]), (0x1E7B, [0x1E7A]), (0x1E7D, [0x1E7C]), (0x1E7F, [0x1E7E]),
     (0x1E81, [0x1E80]), (0x1E83, [0x1E82]), (0x1E85, [0x1E84]), (0x1E87, [0x1E86]),
     (0x1E89, [0x1E88]), (0x1E8B, [0x1E8A]), (0x1E8D, [0x1E8C]), (0x1E8F, [0x1E8E]),
     (0x1E91, [0x1E90]), (0x1E93, [0x1E92]), (0x1E95, [0x1E94]), (0x1E96, [0x48, 0x331]),
     (0x1E97, [0x54, 0x308]), (0x1E98, [0x57, 0x30A]), (0x1E99, [0x59, 0x30A]),
     (0x1E9A, [0x41, 0x2BE]), (0x1E9B, [0x1E60]), (0x1EA1, [0x1EA0]), (0x1EA3, [0x1EA2]),
     (0x1EA5, [0x1EA4]), (0x1EA7, [0x1EA6]), (0x1EA9, [0x1EA8]), (0x1EAB, [0x1EAA]),
     (0x1EAD, [0x1EAC]), (0x1EAF, [0x1EAE]), (0x1EB1, [0x1EB0]), (0x1EB3, [0x1EB2]),
     (0x1EB5, [0x1EB4]), (0x1EB7, [0x1EB6]), (0x1EB9, [0x1EB8]), (0x1EBB, [0x1EBA]),
     (0x1EBD, [0x1EBC])]"

definition upper_block_21 :: "(nat \<times> nat list) list" where
  "upper_block_21 =
    [(0x1EBF, [0x1EBE]), (0x1EC1, [0x1EC0]), (0x1EC3, [0x1EC2]), (0x1EC5, [0x1EC4]),
     (0x1EC7, [0x1EC6]), (0x1EC9, [0x1EC8]), (0x1ECB, [0x1ECA]), (0x1ECD, [0x1ECC]),
     (0x1ECF, [0x1ECE]), (0x1ED1, [0x1ED0]), (0x1ED3, [0x1ED2]), (0x1ED5, [0x1ED4]),
     (0x1ED7, [0x1ED6]), (0x1ED9, [0x1ED8]), (0x1EDB, [0x1EDA]), (0x1EDD, [0x1EDC]),
     (0x1EDF, [0x1EDE]), (0x1EE1, [0x1EE0]), (0x1EE3, [0x1EE2]), (0x1EE5, [0x1EE4]),
     (0x1EE7, [0x1EE6]), (0x1EE9, [0x1EE8]), (0x1EEB, [0x1EEA]), (0x1EED, [0x1EEC]),
     (0x1EEF, [0x1EEE]), (0x1EF1, [0x1EF0]), (0x1EF3, [0x1EF2]), (0x1EF5, [0x1EF4]),
     (0x1EF7, [0x1EF6]), (0x1EF9, [0x1EF8]), (0x1EFB, [0x1EFA]), (0x1EFD, [0x1EFC]),
     (0x1EFF, [0x1EFE])]"

definition upper_block_22 :: "(nat \<times> nat list) list" where
  "upper_block_22 =
    [(0x1F00, [0x1F08]), (0x1F01, [0x1F09]), (0x1F02, [0x1F0A]), (0x1F03, [0x1F0B]),
     (0x1F04, [0x1F0C]), (0x1F05, [0x1F0D]), (0x1F06, [0x1F0E]), (0x1F07, [0x1F0F]),
     (0x1F10, [0x1F18]), (0x1F11, [0x1F19]), (0x1F12, [0x1F1A]), (0x1F13, [0x1F1B]),
     (0x1F14, [0x1F1C]), (0x1F15, [0x1F1D]), (0x1F20, [0x1F28]), (0x1F21, [0x1F29]),
     (0x1F22, [0x1F2A]), (0x1F23, [0x1F2B]), (0x1F24, [0x1F2C]), (0x1F25, [0x1F2D]),
     (0x1F26, [0x1F2E]), (0x1F27, [0x1F2F]), (0x1F30, [0x1F38]), (0x1F31, [0x1F39]),
     (0x1F32, [0x1F3A]), (0x1F33, [0x1F3B]), (0x1F34, [0x1F3C]), (0x1F35, [0x1F3D]),
     (0x1F36, [0x1F3E]), (0x1F37, [0x1F3F]), (0x1F40, [0x1F48]), (0x1F41, [0x1F49]),
     (0x1F42, [0x1F4A]), (0x1F43, [0x1F4B]), (0x1F44, [0x1F4C]), (0x1F45, [0x1F4D]),
     (0x1F50, [0x3A5, 0x313]), (0x1F51, [0x1F59]), (0x1F52, [0x3A5, 0x313, 0x300]),
     (0x1F53, [0x1F5B]), (0x1F54, [0x3A5, 0x313, 0x301]), (0x1F55, [0x1F5D]),
     (0x1F56, [0x3A5, 0x313, 0x342]), (0x1F57, [0x1F5F]), (0x1F60, [0x1F68]),
     (0x1F61, [0x1F69]), (0x1F62, [0x1F6A]), (0x1F63, [0x1F6B])]"

definition upper_block_23 :: "(nat \<times> nat list) list" where
  "upper_block_23 =
    [(0x1F64, [0x1F6C]), (0x1F65, [0x1F6D]), (0x1F66, [0x1F6E]), (0x1F67, [0x1F6F]),
     (0x1F70, [0x1FBA]), (0x1F71, [0x1FBB]), (0x1F72, [0x1FC8]), (0x1F73, [0x1FC9]),
     (0x1F74, [0x1FCA]), (0x1F75, [0x1FCB]), (0x1F76, [0x1FDA]), (0x1F77, [0x1FDB]),
     (0x1F78, [0x1FF8]), (0x1F79, [0x1FF9]), (0x1F7A, [0x1FEA]), (0x1F7B, [0x1FEB]),
     (0x1F7C, [0x1FFA]), (0x1F7D, [0x1FFB]), (0x1F80, [0x1F08, 0x399]),
     (0x1F81, [0x1F09, 0x399]), (0x1F82, [0x1F0A, 0x399]), (0x1F83, [0x1F0B, 0x399]),
     (0x1F84, [0x1F0C, 0x399]), (0x1F85, [0x1F0D, 0x399]), (0x1F86, [0x1F0E, 0x399]),
     (0x1F87, [0x1F0F, 0x399]), (0x1F88, [0x1F08, 0x399]), (0x1F89, [0x1F09, 0x399]),
     (0x1F8A, [0x1F0A, 0x399]), (0x1F8B, [0x1F0B, 0x399]), (0x1F8C, [0x1F0C, 0x399]),
     (0x1F8D, [0x1F0D, 0x399]), (0x1F8E, [0x1F0E, 0x399]), (0x1F8F, [0x1F0F, 0x399]),
     (0x1F90, [0x1F28, 0x399]), (0x1F91, [0x1F29, 0x399]), (0x1F92, [0x1F2A, 0x399]),
     (0x1F93, [0x1F2B, 0x399]), (0x1F94, [0x1F2C, 0x399]), (0x1F95, [0x1F2D, 0x399]),
     (0x1F96, [0x1F2E, 0x399]), (0x1F97, [0x1F2F, 0x399]), (0x1F98, [0x1F28, 0x399]),
     (0x1F99, [0x1F29, 0x399]), (0x1F9A, [0x1F2A, 0x399]), (0x1F9B, [0x1F2B, 0x399]),
     (0x1F9C, [0x1F2C, 0x399]), (0x1F9D, [0x1F2D, 0x399])]"

definition upper_block_24 :: "(nat \<times> nat list) list" where
  "upper_block_24 =
    [(0x1F9E, [0x1F2E, 0x399]), (0x1F9F, [0x1F2F, 0x399]), (0x1FA0, [0x1F68, 0x399]),
     (0x1FA1, [0x1F69, 0x399]), (0x1FA2, [0x1F6A, 0x399]), (0x1FA3, [0x1F6B, 0x399]),
     (0x1FA4, [0x1F6C, 0x399]), (0x1FA5, [0x1F6D, 0x399]), (0x1FA6, [0x1F6E, 0x399]),
     (0x1FA7, [0x1F6F, 0x399]), (0x1FA8, [0x1F68, 0x399]), (0x1FA9, [0x1F69, 0x399]),
     (0x1FAA, [0x1F6A, 0x399]), (0x1FAB, [0x1F6B, 0x399]), (0x1FAC, [0x1F6C, 0x399]),
     (0x1FAD, [0x1F6D, 0x399]), (0x1FAE, [0x1F6E, 0x399]), (0x1FAF, [0x1F6F, 0x399]),
     (0x1FB0, [0x1FB8]), (0x1FB1, [0x1FB9]), (0x1FB2, [0x1FBA, 0x399]),
     (0x1FB3, [0x391, 0x399]), (0x1FB4, [0x386, 0x399]), (0x1FB6, [0x391, 0x342]),
     (0x1FB7, [0x391, 0x342, 0x399]), (0x1FBC, [0x391, 0x399]), (0x1FBE, [0x399]),
     (0x1FC2, [0x1FCA, 0x399]), (0x1FC3, [0x397, 0x399]), (0x1FC4, [0x389, 0x399]),
     (0x1FC6, [0x397, 0x342]), (0x1FC7, [0x397, 0x342, 0x399]), (0x1FCC, [0x397, 0x399]),
     (0x1FD0, [0x1FD8]), (0x1FD1, [0x1FD9]), (0x1FD2, [0x399, 0x308, 0x300]),
     (0x1FD3, [0x399, 0x308, 0x301]), (0x1FD6, [0x399, 0x342]), (0x1FD7, [0x399, 0x308, 0x342]),
     (0x1FE0, [0x1FE8]), (0x1FE1, [0x1FE9]), (0x1FE2, [0x3A5, 0x308, 0x300]),
     (0x1FE3, [0x3A5, 0x308, 0x301]), (0x1FE4, [0x3A1, 0x313]), (0x1FE5, [0x1FEC]),
     (0x1FE6, [0x3A5, 0x342]), (0x1FE7, [0x3A5, 0x308, 0x342]), (0x1FF2, [0x1FFA, 0x399])]"

definition upper_block_25 :: "(nat \<times> nat list) list" where
  "upper_block_25 =
    [(0x1FF3, [0x3A9, 0x399]), (0x1FF4, [0x38F, 0x399]), (0x1FF6, [0x3A9, 0x342]),
     (0x1FF7, [0x3A9, 0x342, 0x399]), (0x1FFC, [0x3A9, 0x399])]"

definition upper_block_26 :: "(nat \<times> nat list) list" where
  "upper_block_26 =
    [(0x214E, [0x2132]), (0x2170, [0x2160]), (0x2171, [0x2161]), (0x2172, [0x2162]),
     (0x2173, [0x2163]), (0x2174, [0x2164]), (0x2175, [0x2165]), (0x2176, [0x2166]),
     (0x2177, [0x2167]), (0x2178, [0x2168]), (0x2179, [0x2169]), (0x217A, [0x216A]),
     (0x217B, [0x216B]), (0x217C, [0x216C]), (0x217D, [0x216D]), (0x217E, [0x216E]),
     (0x217F, [0x216F]), (0x2184, [0x2183]), (0x24D0, [0x24B6]), (0x24D1, [0x24B7]),
     (0x24D2, [0x24B8]), (0x24D3, [0x24B9]), (0x24D4, [0x24BA]), (0x24D5, [0x24BB]),
     (0x24D6, [0x24BC]), (0x24D7, [0x24BD]), (0x24D8, [0x24BE]), (0x24D9, [0x24BF]),
     (0x24DA, [0x24C0]), (0x24DB, [0x24C1]), (0x24DC, [0x24C2]), (0x24DD, [0x24C3]),
     (0x24DE, [0x24C4]), (0x24DF, [0x24C5]), (0x24E0, [0x24C6]), (0x24E1, [0x24C7]),
     (0x24E2, [0x24C8]), (0x24E3, [0x24C9]), (0x24E4, [0x24CA]), (0x24E5, [0x24CB]),
     (0x24E6, [0x24CC]), (0x24E7, [0x24CD]), (0x24E8, [0x24CE]), (0x24E9, [0x24CF])]"

definition upper_block_27 :: "(nat \<times> nat list) list" where
  "upper_block_27 =
    [(0x2C30, [0x2C00]), (0x2C31, [0x2C01]), (0x2C32, [0x2C02]), (0x2C33, [0x2C03]),
     (0x2C34, [0x2C04]), (0x2C35, [0x2C05]), (0x2C36, [0x2C06]), (0x2C37, [0x2C07]),
     (0x2C38, [0x2C08]), (0x2C39, [0x2C09]), (0x2C3A, [0x2C0A]), (0x2C3B, [0x2C0B]),
     (0x2C3C, [0x2C0C]), (0x2C3D, [0x2C0D]), (0x2C3E, [0x2C0E]), (0x2C3F, [0x2C0F]),
     (0x2C40, [0x2C10]), (0x2C41, [0x2C11]), (0x2C42, [0x2C12]), (0x2C43, [0x2C13]),
     (0x2C44, [0x2C14]), (0x2C45, [0x2C15]), (0x2C46, [0x2C16]), (0x2C47, [0x2C17]),
     (0x2C48, [0x2C18]), (0x2C49, [0x2C19]), (0x2C4A, [0x2C1A]), (0x2C4B, [0x2C1B]),
     (0x2C4C, [0x2C1C]), (0x2C4D, [0x2C1D]), (0x2C4E, [0x2C1E]), (0x2C4F, [0x2C1F]),
     (0x2C50, [0x2C20]), (0x2C51, [0x2C21]), (0x2C52, [0x2C22]), (0x2C53, [0x2C23]),
     (0x2C54, [0x2C24]), (0x2C55, [0x2C25]), (0x2C56, [0x2C26]), (0x2C57, [0x2C27]),
     (0x2C58, [0x2C28]), (0x2C59, [0x2C29]), (0x2C5A, [0x2C2A]), (0x2C5B, [0x2C2B]),
     (0x2C5C, [0x2C2C]), (0x2C5D, [0x2C2D]), (0x2C5E, [0x2C2E]), (0x2C5F, [0x2C2F])]"

definition upper_block_28 :: "(nat \<times> nat list) list" where
  "upper_block_28 =
    [(0x2C61, [0x2C60]), (0x2C65, [0x23A]), (0x2C66, [0x23E]), (0x2C68, [0x2C67]),
     (0x2C6A, [0x2C69]), (0x2C6C, [0x2C6B]), (0x2C73, [0x2C72]), (0x2C76, [0x2C75])]"

definition upper_block_29 :: "(nat \<times> nat list) list" where
  "upper_block_29 =
    [(0x2C81, [0x2C80]), (0x2C83, [0x2C82]), (0x2C85, [0x2C84]), (0x2C87, [0x2C86]),
     (0x2C89, [0x2C88]), (0x2C8B, [0x2C8A]), (0x2C8D, [0x2C8C]), (0x2C8F, [0x2C8E]),
     (0x2C91, [0x2C90]), (0x2C93, [0x2C92]), (0x2C95, [0x2C94]), (0x2C97, [0x2C96]),
     (0x2C99, [0x2C98]), (0x2C9B, [0x2C9A]), (0x2C9D, [0x2C9C]), (0x2C9F, [0x2C9E]),
     (0x2CA1, [0x2CA0]), (0x2CA3, [0x2CA2]), (0x2CA5, [0x2CA4]), (0x2CA7, [0x2CA6]),
     (0x2CA9, [0x2CA8]), (0x2CAB, [0x2CAA]), (0x2CAD, [0x2CAC]), (0x2CAF, [0x2CAE]),
     (0x2CB1, [0x2CB0]), (0x2CB3, [0x2CB2]), (0x2CB5, [0x2CB4]), (0x2CB7, [0x2CB6]),
     (0x2CB9, [0x2CB8]), (0x2CBB, [0x2CBA]), (0x2CBD, [0x2CBC]), (0x2CBF, [0x2CBE]),
     (0x2CC1, [0x2CC0]), (0x2CC3, [0x2CC2]), (0x2CC5, [0x2CC4]), (0x2CC7, [0x2CC6]),
     (0x2CC9, [0x2CC8]), (0x2CCB, [0x2CCA]), (0x2CCD, [0x2CCC]), (0x2CCF, [0x2CCE]),
     (0x2CD1, [0x2CD0]), (0x2CD3, [0x2CD2]), (0x2CD5, [0x2CD4]), (0x2CD7, [0x2CD6]),
     (0x2CD9, [0x2CD8]), (0x2CDB, [0x2CDA]), (0x2CDD, [0x2CDC]), (0x2CDF, [0x2CDE])]"

definition upper_block_30 :: "(nat \<times> nat list) list" where
  "upper_block_30 =
    [(0x2CE1, [0x2CE0]), (0x2CE3, [0x2CE2]), (0x2CEC, [0x2CEB]), (0x2CEE, [0x2CED]),
     (0x2CF3, [0x2CF2])]"

definition upper_block_31 :: "(nat \<times> nat list) list" where
  "upper_block_31 =
    [(0x2D00, [0x10A0]), (0x2D01, [0x10A1]), (0x2D02, [0x10A2]), (0x2D03, [0x10A3]),
     (0x2D04, [0x10A4]), (0x2D05, [0x10A5]), (0x2D06, [0x10A6]), (0x2D07, [0x10A7]),
     (0x2D08, [0x10A8]), (0x2D09, [0x10A9]), (0x2D0A, [0x10AA]), (0x2D0B, [0x10AB]),
     (0x2D0C, [0x10AC]), (0x2D0D, [0x10AD]), (0x2D0E, [0x10AE]), (0x2D0F, [0x10AF]),
     (0x2D10, [0x10B0]), (0x2D11, [0x10B1]), (0x2D12, [0x10B2]), (0x2D13, [0x10B3]),
     (0x2D14, [0x10B4]), (0x2D15, [0x10B5]), (0x2D16, [0x10B6]), (0x2D17, [0x10B7]),
     (0x2D18, [0x10B8]), (0x2D19, [0x10B9]), (0x2D1A, [0x10BA]), (0x2D1B, [0x10BB]),
     (0x2D1C, [0x10BC]), (0x2D1D, [0x10BD]), (0x2D1E, [0x10BE]), (0x2D1F, [0x10BF]),
     (0x2D20, [0x10C0]), (0x2D21, [0x10C1]), (0x2D22, [0x10C2]), (0x2D23, [0x10C3]),
     (0x2D24, [0x10C4]), (0x2D25, [0x10C5]), (0x2D27, [0x10C7]), (0x2D2D, [0x10CD])]"

definition upper_block_32 :: "(nat \<times> nat list) list" where
  "upper_block_32 =
    [(0xA641, [0xA640]), (0xA643, [0xA642]), (0xA645, [0xA644]), (0xA647, [0xA646]),
     (0xA649, [0xA648]), (0xA64B, [0xA64A]), (0xA64D, [0xA64C]), (0xA64F, [0xA64E]),
     (0xA651, [0xA650]), (0xA653, [0xA652]), (0xA655, [0xA654]), (0xA657, [0xA656]),
     (0xA659, [0xA658]), (0xA65B, [0xA65A]), (0xA65D, [0xA65C]), (0xA65F, [0xA65E]),
     (0xA661, [0xA660]), (0xA663, [0xA662]), (0xA665, [0xA664]), (0xA667, [0xA666]),
     (0xA669, [0xA668]), (0xA66B, [0xA66A]), (0xA66D, [0xA66C]), (0xA681, [0xA680]),
     (0xA683, [0xA682]), (0xA685, [0xA684]), (0xA687, [0xA686]), (0xA689, [0xA688]),
     (0xA68B, [0xA68A]), (0xA68D, [0xA68C]), (0xA68F, [0xA68E]), (0xA691, [0xA690]),
     (0xA693, [0xA692]), (0xA695, [0xA694]), (0xA697, [0xA696]), (0xA699, [0xA698]),
     (0xA69B, [0xA69A])]"

definition upper_block_33 :: "(nat \<times> nat list) list" where
  "upper_block_33 =
    [(0xA723, [0xA722]), (0xA725, [0xA724]), (0xA727, [0xA726]), (0xA729, [0xA728]),
     (0xA72B, [0xA72A]), (0xA72D, [0xA72C]), (0xA72F, [0xA72E]), (0xA733, [0xA732]),
     (0xA735, [0xA734]), (0xA737, [0xA736]), (0xA739, [0xA738]), (0xA73B, [0xA73A]),
     (0xA73D, [0xA73C]), (0xA73F, [0xA73E]), (0xA741, [0xA740]), (0xA743, [0xA742]),
     (0xA745, [0xA744]), (0xA747, [0xA746]), (0xA749, [0xA748]), (0xA74B, [0xA74A]),
     (0xA74D, [0xA74C]), (0xA74F, [0xA74E]), (0xA751, [0xA750]), (0xA753, [0xA752]),
     (0xA755, [0xA754]), (0xA757, [0xA756]), (0xA759, [0xA758]), (0xA75B, [0xA75A]),
     (0xA75D, [0xA75C]), (0xA75F, [0xA75E]), (0xA761, [0xA760]), (0xA763, [0xA762]),
     (0xA765, [0xA764]), (0xA767, [0xA766]), (0xA769, [0xA768]), (0xA76B, [0xA76A]),
     (0xA76D, [0xA76C]), (0xA76F, [0xA76E]), (0xA77A, [0xA779]), (0xA77C, [0xA77B]),
     (0xA77F, [0xA77E]), (0xA781, [0xA780]), (0xA783, [0xA782]), (0xA785, [0xA784]),
     (0xA787, [0xA786]), (0xA78C, [0xA78B]), (0xA791, [0xA790]), (0xA793, [0xA792])]"

definition upper_block_34 :: "(nat \<times> nat list) list" where
  "upper_block_34 =
    [(0xA794, [0xA7C4]), (0xA797, [0xA796]), (0xA799, [0xA798]), (0xA79B, [0xA79A]),
     (0xA79D, [0xA79C]), (0xA79F, [0xA79E]), (0xA7A1, [0xA7A0]), (0xA7A3, [0xA7A2]),
     (0xA7A5, [0xA7A4]), (0xA7A7, [0xA7A6]), (0xA7A9, [0xA7A8]), (0xA7B5, [0xA7B4]),
     (0xA7B7, [0xA7B6]), (0xA7B9, [0xA7B8]), (0xA7BB, [0xA7BA]), (0xA7BD, [0xA7BC]),
     (0xA7BF, [0xA7BE]), (0xA7C1, [0xA7C0]), (0xA7C3, [0xA7C2]), (0xA7C8, [0xA7C7]),
     (0xA7CA, [0xA7C9]), (0xA7D1, [0xA7D0]), (0xA7D7, [0xA7D6]), (0xA7D9, [0xA7D8]),
     (0xA7F6, [0xA7F5])]"

definition upper_block_35 :: "(nat \<times> nat list) list" where
  "upper_block_35 =
    [(0xAB53, [0xA7B3]), (0xAB70, [0x13A0]), (0xAB71, [0x13A1]), (0xAB72, [0x13A2]),
     (0xAB73, [0x13A3]), (0xAB74, [0x13A4]), (0xAB75, [0x13A5]), (0xAB76, [0x13A6]),
     (0xAB77, [0x13A7]), (0xAB78, [0x13A8]), (0xAB79, [0x13A9]), (0xAB7A, [0x13AA]),
     (0xAB7B, [0x13AB]), (0xAB7C, [0x13AC]), (0xAB7D, [0x13AD]), (0xAB7E, [0x13AE]),
     (0xAB7F, [0x13AF]), (0xAB80, [0x13B0]), (0xAB81, [0x13B1]), (0xAB82, [0x13B2]),
     (0xAB83, [0x13B3]), (0xAB84, [0x13B4]), (0xAB85, [0x13B5]), (0xAB86, [0x13B6]),
     (0xAB87, [0x13B7]), (0xAB88, [0x13B8]), (0xAB89, [0x13B9]), (0xAB8A, [0x13BA]),
     (0xAB8B, [0x13BB]), (0xAB8C, [0x13BC]), (0xAB8D, [0x13BD]), (0xAB8E, [0x13BE]),
     (0xAB8F, [0x13BF]), (0xAB90, [0x13C0]), (0xAB91, [0x13C1]), (0xAB92, [0x13C2]),
     (0xAB93, [0x13C3]), (0xAB94, [0x13C4]), (0xAB95, [0x13C5]), (0xAB96, [0x13C6]),
     (0xAB97, [0x13C7]), (0xAB98, [0x13C8]), (0xAB99, [0x13C9]), (0xAB9A, [0x13CA]),
     (0xAB9B, [0x13CB]), (0xAB9C, [0x13CC]), (0xAB9D, [0x13CD]), (0xAB9E, [0x13CE])]"

definition upper_block_36 :: "(nat \<times> nat list) list" where
  "upper_block_36 =
    [(0xAB9F, [0x13CF]), (0xABA0, [0x13D0]), (0xABA1, [0x13D1]), (0xABA2, [0x13D2]),
     (0xABA3, [0x13D3]), (0xABA4, [0x13D4]), (0xABA5, [0x13D5]), (0xABA6, [0x13D6]),
     (0xABA7, [0x13D7]), (0xABA8, [0x13D8]), (0xABA9, [0x13D9]), (0xABAA, [0x13DA]),
     (0xABAB, [0x13DB]), (0xABAC, [0x13DC]), (0xABAD, [0x13DD]), (0xABAE, [0x13DE]),
     (0xABAF, [0x13DF]), (0xABB0, [0x13E0]), (0xABB1, [0x13E1]), (0xABB2, [0x13E2]),
     (0xABB3, [0x13E3]), (0xABB4, [0x13E4]), (0xABB5, [0x13E5]), (0xABB6, [0x13E6]),
     (0xABB7, [0x13E7]), (0xABB8, [0x13E8]), (0xABB9, [0x13E9]), (0xABBA, [0x13EA]),
     (0xABBB, [0x13EB]), (0xABBC, [0x13EC]), (0xABBD, [0x13ED]), (0xABBE, [0x13EE]),
     (0xABBF, [0x13EF])]"

definition upper_block_37 :: "(nat \<times> nat list) list" where
  "upper_block_37 =
    [(0xFB00, [0x46, 0x46]), (0xFB01, [0x46, 0x49]), (0xFB02, [0x46, 0x4C]),
     (0xFB03, [0x46, 0x46, 0x49]), (0xFB04, [0x46, 0x46, 0x4C]), (0xFB05, [0x53, 0x54]),
     (0xFB06, [0x53, 0x54]), (0xFB13, [0x544, 0x546]), (0xFB14, [0x544, 0x535]),
     (0xFB15, [0x544, 0x53B]), (0xFB16, [0x54E, 0x546]), (0xFB17, [0x544, 0x53D]),
     (0xFF41, [0xFF21]), (0xFF42, [0xFF22]), (0xFF43, [0xFF23]), (0xFF44, [0xFF24]),
     (0xFF45, [0xFF25]), (0xFF46, [0xFF26]), (0xFF47, [0xFF27]), (0xFF48, [0xFF28]),
     (0xFF49, [0xFF29]), (0xFF4A, [0xFF2A]), (0xFF4B, [0xFF2B]), (0xFF4C, [0xFF2C]),
     (0xFF4D, [0xFF2D]), (0xFF4E, [0xFF2E]), (0xFF4F, [0xFF2F]), (0xFF50, [0xFF30]),
     (0xFF51, [0xFF31]), (0xFF52, [0xFF32]), (0xFF53, [0xFF33]), (0xFF54, [0xFF34]),
     (0xFF55, [0xFF35]), (0xFF56, [0xFF36]), (0xFF57, [0xFF37]), (0xFF58, [0xFF38]),
     (0xFF59, [0xFF39]), (0xFF5A, [0xFF3A])]"

definition upper_block_38 :: "(nat \<times> nat list) list" where
  "upper_block_38 =
    [(0x10428, [0x10400]), (0x10429, [0x10401]), (0x1042A, [0x10402]), (0x1042B, [0x10403]),
     (0x1042C, [0x10404]), (0x1042D, [0x10405]), (0x1042E, [0x10406]), (0x1042F, [0x10407]),
     (0x10430, [0x10408]), (0x10431, [0x10409]), (0x10432, [0x1040A]), (0x10433, [0x1040B]),
     (0x10434, [0x1040C]), (0x10435, [0x1040D]), (0x10436, [0x1040E]), (0x10437, [0x1040F]),
     (0x10438, [0x10410]), (0x10439, [0x10411]), (0x1043A, [0x10412]), (0x1043B, [0x10413]),
     (0x1043C, [0x10414]), (0x1043D, [0x10415]), (0x1043E, [0x10416]), (0x1043F, [0x10417]),
     (0x10440, [0x10418]), (0x10441, [0x10419]), (0x10442, [0x1041A]), (0x10443, [0x1041B]),
     (0x10444, [0x1041C]), (0x10445, [0x1041D]), (0x10446, [0x1041E]), (0x10447, [0x1041F]),
     (0x10448, [0x10420]), (0x10449, [0x10421]), (0x1044A, [0x10422]), (0x1044B, [0x10423]),
     (0x1044C, [0x10424]), (0x1044D, [0x10425]), (0x1044E, [0x10426]), (0x1044F, [0x10427]),
     (0x104D8, [0x104B0]), (0x104D9, [0x104B1]), (0x104DA, [0x104B2]), (0x104DB, [0x104B3]),
     (0x104DC, [0x104B4]), (0x104DD, [0x104B5]), (0x104DE, [0x104B6]), (0x104DF, [0x104B7])]"

definition upper_block_39 :: "(nat \<times> nat list) list" where
  "upper_block_39 =
    [(0x104E0, [0x104B8]), (0x104E1, [0x104B9]), (0x104E2, [0x104BA]), (0x104E3, [0x104BB]),
     (0x104E4, [0x104BC]), (0x104E5, [0x104BD]), (0x104E6, [0x104BE]), (0x104E7, [0x104BF]),
     (0x104E8, [0x104C0]), (0x104E9, [0x104C1]), (0x104EA, [0x104C2]), (0x104EB, [0x104C3]),
     (0x104EC, [0x104C4]), (0x104ED, [0x104C5]), (0x104EE, [0x104C6]), (0x104EF, [0x104C7]),
     (0x104F0, [0x104C8]), (0x104F1, [0x104C9]), (0x104F2, [0x104CA]), (0x104F3, [0x104CB]),
     (0x104F4, [0x104CC]), (0x104F5, [0x104CD]), (0x104F6, [0x104CE]), (0x104F7, [0x104CF]),
     (0x104F8, [0x104D0]), (0x104F9, [0x104D1]), (0x104FA, [0x104D2]), (0x104FB, [0x104D3])]"

definition upper_block_40 :: "(nat \<times> nat list) list" where
  "upper_block_40 =
    [(0x10597, [0x10570]), (0x10598, [0x10571]), (0x10599, [0x10572]), (0x1059A, [0x10573]),
     (0x1059B, [0x10574]), (0x1059C, [0x10575]), (0x1059D, [0x10576]), (0x1059E, [0x10577]),
     (0x1059F, [0x10578]), (0x105A0, [0x10579]), (0x105A1, [0x1057A]), (0x105A3, [0x1057C]),
     (0x105A4, [0x1057D]), (0x105A5, [0x1057E]), (0x105A6, [0x1057F]), (0x105A7, [0x10580]),
     (0x105A8, [0x10581]), (0x105A9, [0x10582]), (0x105AA, [0x10583]), (0x105AB, [0x10584]),
     (0x105AC, [0x10585]), (0x105AD, [0x10586]), (0x105AE, [0x10587]), (0x105AF, [0x10588]),
     (0x105B0, [0x10589]), (0x105B1, [0x1058A]), (0x105B3, [0x1058C]), (0x105B4, [0x1058D]),
     (0x105B5, [0x1058E]), (0x105B6, [0x1058F]), (0x105B7, [0x10590]), (0x105B8, [0x10591]),
     (0x105B9, [0x10592]), (0x105BB, [0x10594]), (0x105BC, [0x10595]), (0x10CC0, [0x10C80]),
     (0x10CC1, [0x10C81]), (0x10CC2, [0x10C82]), (0x10CC3, [0x10C83]), (0x10CC4, [0x10C84]),
     (0x10CC5, [0x10C85]), (0x10CC6, [0x10C86]), (0x10CC7, [0x10C87]), (0x10CC8, [0x10C88]),
     (0x10CC9, [0x10C89]), (0x10CCA, [0x10C8A]), (0x10CCB, [0x10C8B]), (0x10CCC, [0x10C8C])]"

definition upper_block_41 :: "(nat \<times> nat list) list" where
  "upper_block_41 =
    [(0x10CCD, [0x10C8D]), (0x10CCE, [0x10C8E]), (0x10CCF, [0x10C8F]), (0x10CD0, [0x10C90]),
     (0x10CD1, [0x10C91]), (0x10CD2, [0x10C92]), (0x10CD3, [0x10C93]), (0x10CD4, [0x10C94]),
     (0x10CD5, [0x10C95]), (0x10CD6, [0x10C96]), (0x10CD7, [0x10C97]), (0x10CD8, [0x10C98]),
     (0x10CD9, [0x10C99]), (0x10CDA, [0x10C9A]), (0x10CDB, [0x10C9B]), (0x10CDC, [0x10C9C]),
     (0x10CDD, [0x10C9D]), (0x10CDE, [0x10C9E]), (0x10CDF, [0x10C9F]), (0x10CE0, [0x10CA0]),
     (0x10CE1, [0x10CA1]), (0x10CE2, [0x10CA2]), (0x10CE3, [0x10CA3]), (0x10CE4, [0x10CA4]),
     (0x10CE5, [0x10CA5]), (0x10CE6, [0x10CA6]), (0x10CE7, [0x10CA7]), (0x10CE8, [0x10CA8]),
     (0x10CE9, [0x10CA9]), (0x10CEA, [0x10CAA]), (0x10CEB, [0x10CAB]), (0x10CEC, [0x10CAC]),
     (0x10CED, [0x10CAD]), (0x10CEE, [0x10CAE]), (0x10CEF, [0x10CAF]), (0x10CF0, [0x10CB0]),
     (0x10CF1, [0x10CB1]), (0x10CF2, [0x10CB2])]"

definition upper_block_42 :: "(nat \<times> nat list) list" where
  "upper_block_42 =
    [(0x118C0, [0x118A0]), (0x118C1, [0x118A1]), (0x118C2, [0x118A2]), (0x118C3, [0x118A3]),
     (0x118C4, [0x118A4]), (0x118C5, [0x118A5]), (0x118C6, [0x118A6]), (0x118C7, [0x118A7]),
     (0x118C8, [0x118A8]), (0x118C9, [0x118A9]), (0x118CA, [0x118AA]), (0x118CB, [0x118AB]),
     (0x118CC, [0x118AC]), (0x118CD, [0x118AD]), (0x118CE, [0x118AE]), (0x118CF, [0x118AF]),
     (0x118D0, [0x118B0]), (0x118D1, [0x118B1]), (0x118D2, [0x118B2]), (0x118D3, [0x118B3]),
     (0x118D4, [0x118B4]), (0x118D5, [0x118B5]), (0x118D6, [0x118B6]), (0x118D7, [0x118B7]),
     (0x118D8, [0x118B8]), (0x118D9, [0x118B9]), (0x118DA, [0x118BA]), (0x118DB, [0x118BB]),
     (0x118DC, [0x118BC]), (0x118DD, [0x118BD]), (0x118DE, [0x118BE]), (0x118DF, [0x118BF])]"

definition upper_block_43 :: "(nat \<times> nat list) list" where
  "upper_block_43 =
    [(0x16E60, [0x16E40]), (0x16E61, [0x16E41]), (0x16E62, [0x16E42]), (0x16E63, [0x16E43]),
     (0x16E64, [0x16E44]), (0x16E65, [0x16E45]), (0x16E66, [0x16E46]), (0x16E67, [0x16E47]),
     (0x16E68, [0x16E48]), (0x16E69, [0x16E49]), (0x16E6A, [0x16E4A]), (0x16E6B, [0x16E4B]),
     (0x16E6C, [0x16E4C]), (0x16E6D, [0x16E4D]), (0x16E6E, [0x16E4E]), (0x16E6F, [0x16E4F]),
     (0x16E70, [0x16E50]), (0x16E71, [0x16E51]), (0x16E72, [0x16E52]), (0x16E73, [0x16E53]),
     (0x16E74, [0x16E54]), (0x16E75, [0x16E55]), (0x16E76, [0x16E56]), (0x16E77, [0x16E57]),
     (0x16E78, [0x16E58]), (0x16E79, [0x16E59]), (0x16E7A, [0x16E5A]), (0x16E7B, [0x16E5B]),
     (0x16E7C, [0x16E5C]), (0x16E7D, [0x16E5D]), (0x16E7E, [0x16E5E]), (0x16E7F, [0x16E5F])]"

definition upper_block_44 :: "(nat \<times> nat list) list" where
  "upper_block_44 =
    [(0x1E922, [0x1E900]), (0x1E923, [0x1E901]), (0x1E924, [0x1E902]), (0x1E925, [0x1E903]),
     (0x1E926, [0x1E904]), (0x1E927, [0x1E905]), (0x1E928, [0x1E906]), (0x1E929, [0x1E907]),
     (0x1E92A, [0x1E908]), (0x1E92B, [0x1E909]), (0x1E92C, [0x1E90A]), (0x1E92D, [0x1E90B]),
     (0x1E92E, [0x1E90C]), (0x1E92F, [0x1E90D]), (0x1E930, [0x1E90E]), (0x1E931, [0x1E90F]),
     (0x1E932, [0x1E910]), (0x1E933, [0x1E911]), (0x1E934, [0x1E912]), (0x1E935, [0x1E913]),
     (0x1E936, [0x1E914]), (0x1E937, [0x1E915]), (0x1E938, [0x1E916]), (0x1E939, [0x1E917]),
     (0x1E93A, [0x1E918]), (0x1E93B, [0x1E919]), (0x1E93C, [0x1E91A]), (0x1E93D, [0x1E91B]),
     (0x1E93E, [0x1E91C]), (0x1E93F, [0x1E91D]), (0x1E940, [0x1E91E]), (0x1E941, [0x1E91F]),
     (0x1E942, [0x1E920]), (0x1E943, [0x1E921])]"

definition upper_lookup :: "nat \<Rightarrow> nat list option" where
  "upper_lookup c =
     (if c \<le> 0x7A then map_of upper_block_00 c
      else if c \<le> 0xFF then map_of upper_block_01 c
      else if c \<le> 0x15F then map_of upper_block_02 c
      else if c \<le> 0x17F then map_of upper_block_03 c
      else if c \<le> 0x1F3 then map_of upper_block_04 c
      else if c \<le> 0x24F then map_of upper_block_05 c
      else if c \<le> 0x29E then map_of upper_block_06 c
      else if c \<le> 0x345 then map_of upper_block_07 c
      else if c \<le> 0x3D9 then map_of upper_block_08 c
      else if c \<le> 0x3FB then map_of upper_block_09 c
      else if c \<le> 0x45F then map_of upper_block_10 c
      else if c \<le> 0x4C8 then map_of upper_block_11 c
      else if c \<le> 0x4FF then map_of upper_block_12 c
      else if c \<le> 0x52F then map_of upper_block_13 c
      else if c \<le> 0x587 then map_of upper_block_14 c
      else if c \<le> 0x10FF then map_of upper_block_15 c
      else if c \<le> 0x13FD then map_of upper_block_16 c
      else if c \<le> 0x1C88 then map_of upper_block_17 c
      else if c \<le> 0x1D8E then map_of upper_block_18 c
      else if c \<le> 0x1E5F then map_of upper_block_19 c
      else if c \<le> 0x1EBD then map_of upper_block_20 c
      else if c \<le> 0x1EFF then map_of upper_block_21 c
      else if c \<le> 0x1F63 then map_of upper_block_22 c
      else if c \<le> 0x1F9D then map_of upper_block_23 c
      else if c \<le> 0x1FF2 then map_of upper_block_24 c
      else if c \<le> 0x1FFC then map_of upper_block_25 c
      else if c \<le> 0x24E9 then map_of upper_block_26 c
      else if c \<le> 0x2C5F then map_of upper_block_27 c
      else if c \<le> 0x2C76 then map_of upper_block_28 c
      else if c \<le> 0x2CDF then map_of upper_block_29 c
      else if c \<le> 0x2CF3 then map_of upper_block_30 c
      else if c \<le> 0x2D2D then map_of upper_block_31 c
      else if c \<le> 0xA69B then map_of upper_block_32 c
      else if c \<le> 0xA793 then map_of upper_block_33 c
      else if c \<le> 0xA7F6 then map_of upper_block_34 c
      else if c \<le> 0xAB9E then map_of upper_block_35 c
      else if c \<le> 0xABBF then map_of upper_block_36 c
      else if c \<le> 0xFF5A then map_of upper_block_37 c
      else if c \<le> 0x104DF then map_of upper_block_38 c
      else if c \<le> 0x104FB then map_of upper_block_39 c
      else if c \<le> 0x10CCC then map_of upper_block_40 c
      else if c \<le> 0x10CF2 then map_of upper_block_41 c
      else if c \<le> 0x118DF then map_of upper_block_42 c
      else if c \<le> 0x16E7F then map_of upper_block_43 c
      else if c \<le> 0x1E943 then map_of upper_block_44 c
      else None)"

definition upper_blocks_all :: "(nat \<times> nat list) list list" where
  "upper_blocks_all =
    [upper_block_00, upper_block_01, upper_block_02, upper_block_03, upper_block_04,
     upper_block_05, upper_block_06, upper_block_07, upper_block_08, upper_block_09,
     upper_block_10, upper_block_11, upper_block_12, upper_block_13, upper_block_14,
     upper_block_15, upper_block_16, upper_block_17, upper_block_18, upper_block_19,
     upper_block_20, upper_block_21, upper_block_22, upper_block_23, upper_block_24,
     upper_block_25, upper_block_26, upper_block_27, upper_block_28, upper_block_29,
     upper_block_30, upper_block_31, upper_block_32, upper_block_33, upper_block_34,
     upper_block_35, upper_block_36, upper_block_37, upper_block_38, upper_block_39,
     upper_block_40, upper_block_41, upper_block_42, upper_block_43, upper_block_44]"


definition toUpperCase_cp :: "nat \<Rightarrow> nat list" where
  "toUpperCase_cp c = (case upper_lookup c of Some us \<Rightarrow> us | None \<Rightarrow> [c])"

definition toUpperCase :: "jstring \<Rightarrow> jstring" where
  "toUpperCase s = concat (map toUpperCase_cp s)"

text \<open>
  What is checked of every image of the table: it is not empty, and each of its code points
  has no mapping of its own and is no white space. \<open>pick\<close> is the step of a table lookup,
  with both of its results at hand.
\<close>

definition image_ok :: "nat list \<Rightarrow> bool" where
  "image_ok us = (us \<noteq> [] \<and> list_all (\<lambda>u. upper_lookup u = None \<and> \<not> isWhiteSpace u) us)"

definition pick :: "bool \<Rightarrow> 'a \<Rightarrow> 'a option \<Rightarrow> 'a option" where
  "pick b v r = (if b then Some v else r)"

text \<open>Number to string conversion of a template literal, for a non-negative integer.\<close>

definition digit_char :: "nat \<Rightarrow> nat" where
  "digit_char d = 0x30 + d"

function Number_toString :: "nat \<Rightarrow> jstring" where
  "Number_toString n =
     (if n < 10 then [digit_char n]
      else Number_toString (n div 10) @ [digit_char (n mod 10)])"
  by pat_completeness auto
termination
  by (relation "measure id") auto

declare Number_toString.simps [simp del]

text \<open>
  \<^verbatim>\<open>URLSearchParams.prototype.toString\<close>: the application/x-www-form-urlencoded serializer of
  the URL standard. A value is encoded in UTF-8 (an unpaired surrogate as \<^verbatim>\<open>U+FFFD\<close>); of its
  bytes the ASCII alphanumerics and \<^verbatim>\<open>* - . _\<close> stay, a space becomes \<^verbatim>\<open>+\<close>, every other byte
  becomes \<^verbatim>\<open>%HH\<close> with upper-case hex digits. Name and value are joined by \<^verbatim>\<open>=\<close>, the pairs by
  \<^verbatim>\<open>&\<close>.
\<close>

definition utf8 :: "nat \<Rightarrow> nat list" where
  "utf8 c =
     (if c < 0x80 then [c]
      else if c < 0x800 then [0xC0 + c div 0x40, 0x80 + c mod 0x40]
      else if 0xD800 \<le> c \<and> c \<le> 0xDFFF then [0xEF, 0xBF, 0xBD]
      else if c < 0x10000
      then [0xE0 + c div 0x1000, 0x80 + c div 0x40 mod 0x40, 0x80 + c mod 0x40]
      else [0xF0 + c div 0x40000, 0x80 + c div 0x1000 mod 0x40, 0x80 + c div 0x40 mod 0x40,
            0x80 + c mod 0x40])"

definition hex_digit :: "nat \<Rightarrow> nat" where
  "hex_digit d = (if d < 10 then 0x30 + d else 0x37 + d)"

definition hex2 :: "nat \<Rightarrow> jstring" where
  "hex2 b = [hex_digit (b div 16), hex_digit (b mod 16)]"

definition urlencoded_keep :: "nat \<Rightarrow> bool" where
  "urlencoded_keep b =
     ((0x30 \<le> b \<and> b \<le> 0x39) \<or> (0x41 \<le> b \<and> b \<le> 0x5A) \<or> (0x61 \<le> b \<and> b \<le> 0x7A)
      \<or> b \<in> set [0x2A, 0x2D, 0x2E, 0x5F])"

definition urlencoded_byte :: "nat \<Rightarrow> jstring" where
  "urlencoded_byte b =
     (if urlencoded_keep b then [b]
      else if b = 0x20 then [0x2B]
      else 0x25 # hex2 b)"

definition urlencoded :: "jstring \<Rightarrow> jstring" where
  "urlencoded s = concat (map urlencoded_byte (concat (map utf8 s)))"

fun URLSearchParams_toString :: "(jstring \<times> jstring) list \<Rightarrow> jstring" where
  "URLSearchParams_toString [] = []"
| "URLSearchParams_toString [(k, v)] = urlencoded k @ ascii ''='' @ urlencoded v"
| "URLSearchParams_toString ((k, v) # kvs) =
     urlencoded k @ ascii ''='' @ urlencoded v @ ascii ''&'' @ URLSearchParams_toString kvs"

text \<open>
  The value \<^verbatim>\<open>response.json()\<close> resolves to: a parsed JSON text. A number is the parsed
  double's value; an object is the list of its properties, read by name.
\<close>

datatype json =
    JNull
  | JBool bool
  | JNum rat
  | JStr jstring
  | JArr "json list"
  | JObj "(jstring \<times> json) list"

text \<open>Truthiness, as \<^verbatim>\<open>!data\<close> tests it: \<^verbatim>\<open>null\<close>, \<^verbatim>\<open>false\<close>, \<^verbatim>\<open>0\<close> and \<^verbatim>\<open>""\<close> are falsy.\<close>

fun truthy :: "json \<Rightarrow> bool" where
  "truthy JNull = False"
| "truthy (JBool b) = b"
| "truthy (JNum n) = (n \<noteq> 0)"
| "truthy (JStr s) = (s \<noteq> [])"
| "truthy (JArr xs) = True"
| "truthy (JObj kvs) = True"

text \<open>
  The property read \<^verbatim>\<open>data.history\<close> on a truthy value: \<open>None\<close> is \<^verbatim>\<open>undefined\<close>. Only an
  object can carry the property; booleans, numbers, strings and arrays have no property of
  that name. (On \<^verbatim>\<open>null\<close> the read would throw; the source reads it behind \<^verbatim>\<open>!data ||\<close>.)
\<close>

fun get_history :: "json \<Rightarrow> json option" where
  "get_history (JObj kvs) = map_of kvs (ascii ''history'')"
| "get_history v = None"

text \<open>\<^verbatim>\<open>Array.isArray\<close>, applied to the result of a property read.\<close>

fun isArray :: "json option \<Rightarrow> bool" where
  "isArray (Some (JArr xs)) = True"
| "isArray v = False"

section \<open>The data fetcher: \<^verbatim>\<open>services/stockApi.js\<close>\<close>

text \<open>
  The network is a parameter. \<^verbatim>\<open>fetch(url)\<close> either rejects (a transport failure, with the
  transport's message) or resolves to a response. \<^verbatim>\<open>response.ok\<close> is, by the Fetch standard,
  true exactly for a status in 200..299. The body is what \<^verbatim>\<open>response.json()\<close> gives: a
  rejection with the parser's message, or the parsed value.
\<close>

record response =
  status :: nat
  statusText :: jstring
  body :: "jstring + json"

definition response_ok :: "response \<Rightarrow> bool" where
  "response_ok r = (200 \<le> status r \<and> status r \<le> 299)"

datatype net_result = NetFail jstring | NetResp response

text \<open>
  The source throws \<^verbatim>\<open>Error\<close> objects. The constructors name the place each one comes from,
  after the error kinds of the specification; \<open>message\<close> is the \<^verbatim>\<open>err.message\<close> of each.
\<close>

datatype js_error =
    ValidationError
  | HttpError nat jstring
  | FormatError
  | NetworkError jstring
  | JsonSyntaxError jstring

fun message :: "js_error \<Rightarrow> jstring" where
  "message ValidationError = ascii ''Ticker symbol is required.''"
| "message (HttpError st txt) = ascii ''API Error ('' @ Number_toString st @ ascii ''): '' @ txt"
| "message FormatError = ascii ''Invalid data format received from API.''"
| "message (NetworkError m) = m"
| "message (JsonSyntaxError m) = m"

text \<open>
  What a call does to the outside. \<open>ConsoleLog l\<close> is the call \<^verbatim>\<open>console.log(l)\<close>.
  \<open>HttpGet u\<close> is the call \<^verbatim>\<open>fetch(u)\<close> with no options, which asks for a GET; \<open>u\<close> is the
  string handed to \<^verbatim>\<open>fetch\<close>. What \<^verbatim>\<open>fetch\<close> makes of that string (its URL parser
  percent-encodes a space of the path, and ends the path at a \<^verbatim>\<open>?\<close> or a \<^verbatim>\<open>#\<close>) is the
  browser's and is not modelled.
\<close>

datatype effect = ConsoleLog jstring | HttpGet jstring

fun is_HttpGet :: "effect \<Rightarrow> bool" where
  "is_HttpGet (HttpGet u) = True"
| "is_HttpGet (ConsoleLog l) = False"

definition API_BASE_URL :: jstring where
  "API_BASE_URL = ascii ''http://localhost:5000''"

text \<open>Line 4, \<^verbatim>\<open>ticker.trim().toUpperCase()\<close>: the symbol as the request carries it.\<close>

definition normalize_ticker :: "jstring \<Rightarrow> jstring" where
  "normalize_ticker ticker = toUpperCase (trim ticker)"

text \<open>
  \<^verbatim>\<open>fetchStockDataApi\<close> is an async function. Its body up to the first \<^verbatim>\<open>await\<close> (lines 4 to
  10) runs at the call: it either throws before any effect, or logs and calls \<^verbatim>\<open>fetch\<close>, and
  then waits for the response.
\<close>

definition fetchStockDataApi_start ::
  "jstring \<Rightarrow> jstring \<Rightarrow> jstring \<Rightarrow> effect list \<times> (js_error + jstring)" where
  "fetchStockDataApi_start ticker period interval =
     (let upperTicker = normalize_ticker ticker in
      if upperTicker = [] then ([], Inl ValidationError)
      else
        let params = URLSearchParams_toString
                       [(ascii ''period'', period), (ascii ''interval'', interval)];
            apiUrl = API_BASE_URL @ ascii ''/api/stockdata/'' @ upperTicker @ ascii ''?'' @ params
        in ([ConsoleLog (ascii ''Fetching data from: '' @ apiUrl), HttpGet apiUrl], Inr apiUrl))"

text \<open>The rest of the body (lines 10 to 16), run when the request settles.\<close>

definition fetchStockDataApi_resume :: "net_result \<Rightarrow> js_error + json" where
  "fetchStockDataApi_resume nr =
     (case nr of
        NetFail m \<Rightarrow> Inl (NetworkError m)
      | NetResp response \<Rightarrow>
          if \<not> response_ok response
          then Inl (HttpError (status response) (statusText response))
          else
            (case body response of
               Inl m \<Rightarrow> Inl (JsonSyntaxError m)
             | Inr data \<Rightarrow>
                 if \<not> truthy data \<or> \<not> isArray (get_history data)
                 then Inl FormatError
                 else Inr data))"

text \<open>The whole call against a network: the effects, and what the promise settles to.\<close>

definition fetchStockDataApi ::
  "(jstring \<Rightarrow> net_result) \<Rightarrow> jstring \<Rightarrow> jstring \<Rightarrow> jstring
     \<Rightarrow> effect list \<times> (js_error + json)" where
  "fetchStockDataApi net ticker period interval =
     (case fetchStockDataApi_start ticker period interval of
        (effs, Inl e) \<Rightarrow> (effs, Inl e)
      | (effs, Inr apiUrl) \<Rightarrow> (effs, fetchStockDataApi_resume (net apiUrl)))"

text \<open>A network that answers every request the same way.\<close>

definition net_const :: "net_result \<Rightarrow> jstring \<Rightarrow> net_result" where
  "net_const nr url = nr"

section \<open>The request as the specification words it\<close>

text \<open>
  The specification's request line is
  \<^verbatim>\<open>GET {baseUrl}/api/stockdata/{SYMBOL}?period={period}&interval={interval}\<close> with
  \<^verbatim>\<open>{SYMBOL}\<close> upper-cased and URL-path-escaped. \<open>spec_path_escape\<close> follows these words, not
  the source: a path segment keeps the unreserved characters of RFC 3986 (letters, digits,
  \<^verbatim>\<open>- . _ ~\<close>) and percent-encodes every other byte of its UTF-8 encoding.
\<close>

definition spec_path_keep :: "nat \<Rightarrow> bool" where
  "spec_path_keep b =
     ((0x30 \<le> b \<and> b \<le> 0x39) \<or> (0x41 \<le> b \<and> b \<le> 0x5A) \<or> (0x61 \<le> b \<and> b \<le> 0x7A)
      \<or> b \<in> set [0x2D, 0x2E, 0x5F, 0x7E])"

definition spec_path_escape :: "jstring \<Rightarrow> jstring" where
  "spec_path_escape s =
     concat (map (\<lambda>b. if spec_path_keep b then [b] else 0x25 # hex2 b) (concat (map utf8 s)))"

definition spec_request_url :: "jstring \<Rightarrow> jstring \<Rightarrow> jstring \<Rightarrow> jstring \<Rightarrow> jstring" where
  "spec_request_url baseUrl symbol period interval =
     baseUrl @ ascii ''/api/stockdata/'' @ spec_path_escape (toUpperCase (trim symbol))
       @ ascii ''?period='' @ period @ ascii ''&interval='' @ interval"

section \<open>The polling controller: the \<^verbatim>\<open>App\<close> component\<close>

text \<open>
  The state \<^verbatim>\<open>interval\<close> is declared as
  \<^verbatim>\<open>const [interval, setInterval] = useState(DEFAULT_INTERVAL)\<close> (line 12): inside \<^verbatim>\<open>App\<close> the
  name \<^verbatim>\<open>setInterval\<close> is the setter of that state, not the browser's timer function. The
  select box calls it with a string (line 44); the effect calls it with a function (line 35),
  which React takes as an updater: at the next render the state becomes what the function
  returns, here the promise of a \<^verbatim>\<open>fetchData\<close> call. So the state holds a string or a
  promise. A promise is an object: \<open>PromiseVal n\<close> is the one returned by the call of
  \<^verbatim>\<open>fetchData\<close> that \<open>n\<close> calls came before, and two promises are the same only if they are
  the same object.
\<close>

datatype jsval = StrVal jstring | PromiseVal nat

text \<open>String conversion, as \<^verbatim>\<open>URLSearchParams\<close> applies it to a value.\<close>

fun ToString :: "jsval \<Rightarrow> jstring" where
  "ToString (StrVal s) = s"
| "ToString (PromiseVal n) = ascii ''[object Promise]''"

definition DEFAULT_TICKER :: jstring where
  "DEFAULT_TICKER = ascii ''AAPL''"

definition DEFAULT_INTERVAL :: jstring where
  "DEFAULT_INTERVAL = ascii ''15m''"

definition POLLING_INTERVAL_MS :: nat where
  "POLLING_INTERVAL_MS = 30000"

definition PERIOD_FOR_INTRADAY :: jstring where
  "PERIOD_FOR_INTRADAY = ascii ''5d''"

text \<open>Line 21: the lookback period of a fetch.\<close>

definition derive_period :: "jsval \<Rightarrow> jstring" where
  "derive_period currentInterval =
     (if currentInterval \<in> set [StrVal (ascii ''1m''), StrVal (ascii ''5m''), StrVal (ascii ''15m'')]
      then PERIOD_FOR_INTRADAY
      else ascii ''1y'')"

text \<open>An active repeating timer of the page: its handle and its period.\<close>

record timer =
  handle :: nat
  delay_ms :: nat

datatype lifecycle = Fresh | Active | Torn

text \<open>
  An update queued for the \<^verbatim>\<open>interval\<close> state: the string of line 44, or the updater of
  line 35 with the ticker and interval its closure captured.
\<close>

datatype interval_update = SetTo jstring | Updater jstring jsval

text \<open>
  The component's state and refs (lines 11 to 16), with the part of the world it acts on.
  A state field holds the value last passed to its setter. Only \<^verbatim>\<open>interval\<close> is ever set
  by a function, so it alone has a queue, which the next render applies in order. \<open>fetchCalls\<close> counts the calls of \<^verbatim>\<open>fetchData\<close>, \<open>inflight\<close> holds
  the \<^verbatim>\<open>fetchStockDataApi\<close> calls not yet settled (rejected at the call, or waiting for the
  response of a URL), \<open>effects\<close> what was done so far, \<open>timers\<close> the page's active timers.
\<close>

record app =
  ticker :: jstring
  interval :: jsval
  stockData :: json
  isLoading :: bool
  error :: "jstring option"
  pollingTimerRef :: "nat option"
  phase :: lifecycle
  intervalQueue :: "interval_update list"
  fetchCalls :: nat
  inflight :: "(js_error + jstring) list"
  effects :: "effect list"
  timers :: "timer list"

definition App_init :: app where
  "App_init =
     \<lparr> ticker = DEFAULT_TICKER,
       interval = StrVal DEFAULT_INTERVAL,
       stockData = JObj [(ascii ''info'', JNull), (ascii ''history'', JArr [])],
       isLoading = False,
       error = None,
       pollingTimerRef = None,
       phase = Fresh,
       intervalQueue = [],
       fetchCalls = 0,
       inflight = [],
       effects = [],
       timers = [] \<rparr>"

text \<open>
  \<^verbatim>\<open>fetchData\<close> (lines 18 to 30) up to its \<^verbatim>\<open>await\<close>: the two setters, the period, and the
  call of the fetcher. The promise it returns is \<open>PromiseVal\<close> of the count before the call.
\<close>

definition fetchData_start :: "jstring \<Rightarrow> jsval \<Rightarrow> app \<Rightarrow> app" where
  "fetchData_start currentTicker currentInterval a =
     (let a1 = a\<lparr>isLoading := True\<rparr>;
          a2 = a1\<lparr>error := None\<rparr>;
          period = derive_period currentInterval;
          (effs, call) = fetchStockDataApi_start currentTicker period (ToString currentInterval)
      in a2\<lparr>effects := effects a2 @ effs, inflight := inflight a2 @ [call],
             fetchCalls := Suc (fetchCalls a2)\<rparr>)"

text \<open>The rest of \<^verbatim>\<open>fetchData\<close>: \<^verbatim>\<open>try\<close> (line 24), \<^verbatim>\<open>catch\<close> (line 26), \<^verbatim>\<open>finally\<close> (line 28).\<close>

definition fetchData_settle :: "js_error + json \<Rightarrow> app \<Rightarrow> app" where
  "fetchData_settle res a =
     (let a1 = (case res of
                  Inr data \<Rightarrow> a\<lparr>stockData := data\<rparr>
                | Inl err \<Rightarrow> a\<lparr>error := Some (message err)\<rparr>)
      in a1\<lparr>isLoading := False\<rparr>)"

text \<open>The browser's \<^verbatim>\<open>clearInterval\<close>: drops the timer of that handle, if there is one.\<close>

definition clearInterval :: "nat option \<Rightarrow> app \<Rightarrow> app" where
  "clearInterval h a =
     (case h of
        None \<Rightarrow> a
      | Some n \<Rightarrow> a\<lparr>timers := filter (\<lambda>t. handle t \<noteq> n) (timers a)\<rparr>)"

text \<open>
  The effect (lines 33 to 35), run with the ticker and interval of the render it belongs to.
  Line 35 calls the state setter of line 12 with the polling callback and the period: React
  queues the callback as an updater, the second argument is ignored, and the call returns
  \<^verbatim>\<open>undefined\<close>, which is what the ref receives. No timer is created.
\<close>

definition effect_body :: "app \<Rightarrow> app" where
  "effect_body a =
     (let t = ticker a;
          i = interval a;
          a1 = fetchData_start t i a;
          a2 = (case pollingTimerRef a1 of
                  None \<Rightarrow> a1
                | Some h \<Rightarrow> if h \<noteq> 0 then clearInterval (Some h) a1 else a1);
          a3 = a2\<lparr>intervalQueue := intervalQueue a2 @ [Updater t i]\<rparr>
      in a3\<lparr>pollingTimerRef := None\<rparr>)"

text \<open>The effect's cleanup (line 36).\<close>

definition effect_cleanup :: "app \<Rightarrow> app" where
  "effect_cleanup a = clearInterval (pollingTimerRef a) a"

text \<open>
  A render applies the queued updates of \<^verbatim>\<open>interval\<close> in order. An updater of line 35 calls
  \<^verbatim>\<open>fetchData\<close> with its captured arguments, so the render itself starts a fetch and calls
  \<^verbatim>\<open>setIsLoading(true)\<close> and \<^verbatim>\<open>setError(null)\<close>, after whatever was set before the render; the
  promise of the call is the new state.
\<close>

fun apply_interval_updates :: "interval_update list \<Rightarrow> app \<Rightarrow> app" where
  "apply_interval_updates [] a = a"
| "apply_interval_updates (SetTo v # us) a =
     apply_interval_updates us (a\<lparr>interval := StrVal v\<rparr>)"
| "apply_interval_updates (Updater t i # us) a =
     apply_interval_updates us ((fetchData_start t i a)\<lparr>interval := PromiseVal (fetchCalls a)\<rparr>)"

text \<open>
  A render and its commit, given the ticker and interval of the render before: the queue is
  applied, and if \<^verbatim>\<open>ticker\<close> or \<^verbatim>\<open>interval\<close> is not what it was (lines 37), React runs the
  cleanup of the old effect and then the effect.
\<close>

definition render :: "jstring \<Rightarrow> jsval \<Rightarrow> app \<Rightarrow> app" where
  "render t0 i0 a =
     (let a1 = apply_interval_updates (intervalQueue a) (a\<lparr>intervalQueue := []\<rparr>)
      in if ticker a1 \<noteq> t0 \<or> interval a1 \<noteq> i0
         then effect_body (effect_cleanup a1)
         else a1)"

text \<open>
  What can happen to the component. Every state update schedules a render, and the render
  applies all that is queued by then, so each event below ends with the render it causes.
  \<^item> \<open>Mount\<close>: the first render, and the effect after it.
  \<^item> \<open>InputTicker v\<close>, \<open>SelectInterval v\<close>: the handlers of lines 43 and 44.
  \<^item> \<open>Render\<close>: the render that the updater queued by the last effect has scheduled, when
    nothing else happens before it.
  \<^item> \<open>Settle k nr\<close>: the \<open>k\<close>-th pending fetcher call settles, its request (if it made
    one) answered by \<open>nr\<close>, and the rest of \<^verbatim>\<open>fetchData\<close> runs. React drops the state updates
    of an unmounted component.
  \<^item> \<open>Unmount\<close>: the cleanup; queued updates are dropped.
\<close>

datatype event =
    Mount
  | InputTicker jstring
  | SelectInterval jstring
  | Render
  | Settle nat net_result
  | Unmount

fun drop_nth :: "nat \<Rightarrow> 'a list \<Rightarrow> 'a list" where
  "drop_nth k xs = take k xs @ drop (Suc k) xs"

text \<open>What a pending fetcher call settles to.\<close>

fun settle_result :: "js_error + jstring \<Rightarrow> net_result \<Rightarrow> js_error + json" where
  "settle_result (Inl e) nr = Inl e"
| "settle_result (Inr apiUrl) nr = fetchStockDataApi_resume nr"

fun step :: "event \<Rightarrow> app \<Rightarrow> app" where
  "step Mount a =
     (if phase a = Fresh then effect_body (a\<lparr>phase := Active\<rparr>) else a)"
| "step (InputTicker v) a =
     (if phase a = Active
      then render (ticker a) (interval a) (a\<lparr>ticker := v\<rparr>)
      else a)"
| "step (SelectInterval v) a =
     (if phase a = Active
      then render (ticker a) (interval a) (a\<lparr>intervalQueue := intervalQueue a @ [SetTo v]\<rparr>)
      else a)"
| "step Render a =
     (if phase a = Active then render (ticker a) (interval a) a else a)"
| "step (Settle k nr) a =
     (if k < length (inflight a)
      then
        (let res = settle_result (inflight a ! k) nr;
             a1 = a\<lparr>inflight := drop_nth k (inflight a)\<rparr>
         in if phase a = Active
            then render (ticker a) (interval a) (fetchData_settle res a1)
            else a1)
      else a)"
| "step Unmount a =
     (if phase a = Active
      then (effect_cleanup a)\<lparr>phase := Torn, intervalQueue := []\<rparr>
      else a)"

text \<open>A run of the component: the events in order, from a state.\<close>

definition run :: "event list \<Rightarrow> app \<Rightarrow> app" where
  "run evs a = fold step evs a"

section \<open>Example values\<close>

text \<open>A well-formed answer of the backend, and an HTTP 500 answer with an HTML body.\<close>

definition example_data :: json where
  "example_data =
     JObj [(ascii ''info'', JObj [(ascii ''symbol'', JStr (ascii ''AAPL''))]),
           (ascii ''history'',
            JArr [JObj [(ascii ''Date'', JStr (ascii ''2025-04-03T09:30:00'')),
                        (ascii ''Close'', JNum 203)]])]"

definition example_ok_response :: response where
  "example_ok_response = \<lparr>status = 200, statusText = ascii ''OK'', body = Inr example_data\<rparr>"

definition example_500_response :: response where
  "example_500_response =
     \<lparr>status = 500, statusText = ascii ''Internal Server Error'',
      body = Inl (ascii ''Unexpected token <'')\<rparr>"

text \<open>
  The specification's "clear current data", in its own words: the data is \<^verbatim>\<open>null\<close> (the
  \<^verbatim>\<open>data\<close> of its \<^verbatim>\<open>FetchState\<close>), or the empty value the component starts with.
\<close>

definition data_cleared :: "json \<Rightarrow> bool" where
  "data_cleared d =
     (d = JNull \<or> d = JObj [(ascii ''info'', JNull), (ascii ''history'', JArr [])])"

section \<open>The upper-case table\<close>

lemma pick_simps: "pick True v r = Some v" "pick False v r = r"
  by (simp_all add: pick_def)

lemma map_of_pick: "map_of ((k, v) # xs) c = pick (c = k) v (map_of xs c)"
  by (simp add: pick_def)

lemma map_of_Nil_apply: "map_of [] c = None"
  by simp

lemmas block_defs =   upper_block_00_def upper_block_01_def upper_block_02_def upper_block_03_def 
  upper_block_04_def upper_block_05_def upper_block_06_def upper_block_07_def 
  upper_block_08_def upper_block_09_def upper_block_10_def upper_block_11_def 
  upper_block_12_def upper_block_13_def upper_block_14_def upper_block_15_def 
  upper_block_16_def upper_block_17_def upper_block_18_def upper_block_19_def 
  upper_block_20_def upper_block_21_def upper_block_22_def upper_block_23_def 
  upper_block_24_def upper_block_25_def upper_block_26_def upper_block_27_def 
  upper_block_28_def upper_block_29_def upper_block_30_def upper_block_31_def 
  upper_block_32_def upper_block_33_def upper_block_34_def upper_block_35_def 
  upper_block_36_def upper_block_37_def upper_block_38_def upper_block_39_def 
  upper_block_40_def upper_block_41_def upper_block_42_def upper_block_43_def 
  upper_block_44_def

lemmas lookup_eval = upper_lookup_def map_of_pick map_of_Nil_apply pick_simps

text \<open>No white space has an upper-case mapping.\<close>

lemma WhiteSpace_unmapped: "list_all (\<lambda>w. upper_lookup w = None) WhiteSpace_points"
  by (simp add: lookup_eval block_defs WhiteSpace_points_def del: map_of.simps)

text \<open>Every image of the table is made of code points without a mapping that are no white space.\<close>

lemma images_ok: "list_all (list_all (\<lambda>(c, us). image_ok us)) upper_blocks_all"
  by (simp add: upper_blocks_all_def image_ok_def isWhiteSpace_def WhiteSpace_points_def
        lookup_eval block_defs del: map_of.simps)

text \<open>Every entry of the table is found under its key.\<close>

lemma table_entries_found:
  "list_all (list_all (\<lambda>(c, us). upper_lookup c = Some us)) upper_blocks_all"
  by (simp add: upper_blocks_all_def lookup_eval block_defs del: map_of.simps)

lemma upper_lookup_entry:
  "upper_lookup c = Some us \<Longrightarrow> \<exists>b \<in> set upper_blocks_all. (c, us) \<in> set b"
  unfolding upper_lookup_def upper_blocks_all_def
  by (auto split: if_splits dest!: map_of_SomeD)

lemma upper_lookup_image_ok:
  assumes "upper_lookup c = Some us"
  shows "image_ok us"
proof -
  from upper_lookup_entry [OF assms] obtain b where "b \<in> set upper_blocks_all" "(c, us) \<in> set b"
    by blast
  with images_ok show ?thesis
    by (auto simp: list_all_iff)
qed

lemma toUpperCase_cp_nonempty: "toUpperCase_cp c \<noteq> []"
  by (auto simp: toUpperCase_cp_def image_ok_def split: option.splits
        dest: upper_lookup_image_ok)

lemma toUpperCase_cp_fixed:
  assumes "u \<in> set (toUpperCase_cp c)"
  shows "toUpperCase_cp u = [u]"
proof (cases "upper_lookup c")
  case None
  with assms show ?thesis
    by (simp add: toUpperCase_cp_def)
next
  case (Some us)
  with assms have "u \<in> set us"
    by (simp add: toUpperCase_cp_def)
  moreover from Some have "image_ok us"
    by (rule upper_lookup_image_ok)
  ultimately have "upper_lookup u = None"
    by (auto simp: image_ok_def list_all_iff)
  then show ?thesis
    by (simp add: toUpperCase_cp_def)
qed

lemma toUpperCase_cp_WhiteSpace:
  assumes "isWhiteSpace c"
  shows "toUpperCase_cp c = [c]"
proof -
  from assms WhiteSpace_unmapped have "upper_lookup c = None"
    by (auto simp: isWhiteSpace_def list_all_iff)
  then show ?thesis
    by (simp add: toUpperCase_cp_def)
qed

lemma toUpperCase_cp_not_WhiteSpace:
  assumes "\<not> isWhiteSpace c" and "u \<in> set (toUpperCase_cp c)"
  shows "\<not> isWhiteSpace u"
proof (cases "upper_lookup c")
  case None
  with assms show ?thesis
    by (simp add: toUpperCase_cp_def)
next
  case (Some us)
  with assms have "u \<in> set us"
    by (simp add: toUpperCase_cp_def)
  moreover from Some have "image_ok us"
    by (rule upper_lookup_image_ok)
  ultimately show ?thesis
    by (auto simp: image_ok_def list_all_iff)
qed

section \<open>Symbol normalisation\<close>

lemma concat_map_fixed: "(\<And>u. u \<in> set us \<Longrightarrow> f u = [u]) \<Longrightarrow> concat (map f us) = us"
  by (induction us) simp_all

lemma toUpperCase_idem: "toUpperCase (toUpperCase s) = toUpperCase s"
proof -
  have "concat (map toUpperCase_cp (toUpperCase_cp c)) = toUpperCase_cp c" for c
    by (rule concat_map_fixed) (rule toUpperCase_cp_fixed)
  then show ?thesis
    by (induction s) (simp_all add: toUpperCase_def)
qed

lemma toUpperCase_empty_iff: "toUpperCase s = [] \<longleftrightarrow> s = []"
  by (cases s) (simp_all add: toUpperCase_def toUpperCase_cp_nonempty)

text \<open>
  A mapping that keeps each white space as it is, and maps everything else to a text that is
  not empty and does not begin with white space, commutes with stripping white space from
  the front.
\<close>

lemma dropWhile_concat_map:
  assumes ws: "\<And>c. isWhiteSpace c \<Longrightarrow> g c = [c]"
    and nws: "\<And>c. \<not> isWhiteSpace c \<Longrightarrow> g c \<noteq> [] \<and> \<not> isWhiteSpace (hd (g c))"
  shows "dropWhile isWhiteSpace (concat (map g s)) = concat (map g (dropWhile isWhiteSpace s))"
proof (induction s)
  case Nil
  show ?case by simp
next
  case (Cons c s)
  show ?case
  proof (cases "isWhiteSpace c")
    case True
    then show ?thesis
      using Cons by (simp add: ws)
  next
    case False
    from nws [OF False] obtain u us where g: "g c = u # us" and u: "\<not> isWhiteSpace u"
      by (cases "g c") auto
    with False show ?thesis
      by simp
  qed
qed

lemma dropWhile_toUpperCase:
  "dropWhile isWhiteSpace (toUpperCase s) = toUpperCase (dropWhile isWhiteSpace s)"
  unfolding toUpperCase_def
proof (rule dropWhile_concat_map)
  fix c
  assume "isWhiteSpace c"
  then show "toUpperCase_cp c = [c]"
    by (rule toUpperCase_cp_WhiteSpace)
next
  fix c
  assume c: "\<not> isWhiteSpace c"
  have ne: "toUpperCase_cp c \<noteq> []"
    by (rule toUpperCase_cp_nonempty)
  then have "hd (toUpperCase_cp c) \<in> set (toUpperCase_cp c)"
    by simp
  with c have "\<not> isWhiteSpace (hd (toUpperCase_cp c))"
    by (rule toUpperCase_cp_not_WhiteSpace)
  with ne show "toUpperCase_cp c \<noteq> [] \<and> \<not> isWhiteSpace (hd (toUpperCase_cp c))" ..
qed

lemma dropWhile_rev_toUpperCase:
  "dropWhile isWhiteSpace (rev (toUpperCase s))
     = rev (toUpperCase (rev (dropWhile isWhiteSpace (rev s))))"
proof -
  let ?g = "\<lambda>c. rev (toUpperCase_cp c)"
  have r: "rev (toUpperCase xs) = concat (map ?g (rev xs))" for xs
    by (simp add: toUpperCase_def rev_concat rev_map comp_def)
  have "dropWhile isWhiteSpace (concat (map ?g (rev s)))
          = concat (map ?g (dropWhile isWhiteSpace (rev s)))"
  proof (rule dropWhile_concat_map)
    fix c
    assume "isWhiteSpace c"
    then show "rev (toUpperCase_cp c) = [c]"
      by (simp add: toUpperCase_cp_WhiteSpace)
  next
    fix c
    assume c: "\<not> isWhiteSpace c"
    have ne: "toUpperCase_cp c \<noteq> []"
      by (rule toUpperCase_cp_nonempty)
    then have "last (toUpperCase_cp c) \<in> set (toUpperCase_cp c)"
      by simp
    with c have "\<not> isWhiteSpace (last (toUpperCase_cp c))"
      by (rule toUpperCase_cp_not_WhiteSpace)
    with ne show "rev (toUpperCase_cp c) \<noteq> [] \<and> \<not> isWhiteSpace (hd (rev (toUpperCase_cp c)))"
      by (simp add: hd_rev)
  qed
  then show ?thesis
    using r [of s] r [of "rev (dropWhile isWhiteSpace (rev s))"] by simp
qed

text \<open>Upper-casing neither makes nor removes white space, so it commutes with trimming.\<close>

lemma trim_toUpperCase: "trim (toUpperCase s) = toUpperCase (trim s)"
  by (simp add: trim_def dropWhile_toUpperCase dropWhile_rev_toUpperCase)

lemma trim_fixed:
  assumes "s = [] \<or> (\<not> isWhiteSpace (hd s) \<and> \<not> isWhiteSpace (last s))"
  shows "trim s = s"
  unfolding trim_def using assms
  by (metis hd_rev dropWhile_eq_self_iff rev_rev_ident rev.simps(1))

lemma last_dropWhile: "dropWhile P xs \<noteq> [] \<Longrightarrow> last (dropWhile P xs) = last xs"
  by (induction xs) (auto split: if_splits)

lemma trim_ends:
  "trim s = [] \<or> (\<not> isWhiteSpace (hd (trim s)) \<and> \<not> isWhiteSpace (last (trim s)))"
proof (cases "trim s = []")
  case True
  then show ?thesis by simp
next
  case False
  let ?t = "dropWhile isWhiteSpace s"
  let ?u = "dropWhile isWhiteSpace (rev ?t)"
  from False have u: "?u \<noteq> []"
    by (simp add: trim_def)
  have t: "?t \<noteq> []"
  proof
    assume e: "?t = []"
    have "?u = []" unfolding e by simp
    with u show False by (simp only:)
  qed
  have h1: "\<not> isWhiteSpace (hd ?u)"
    using u by (rule hd_dropWhile)
  have "\<not> isWhiteSpace (hd ?t)"
    using t by (rule hd_dropWhile)
  then have "\<not> isWhiteSpace (last (rev ?t))"
    using t by (simp add: last_rev)
  then have h2: "\<not> isWhiteSpace (last ?u)"
    using u by (simp add: last_dropWhile)
  from h1 h2 u show ?thesis
    by (simp add: trim_def last_rev hd_rev)
qed

lemma trim_trim: "trim (trim s) = trim s"
  by (rule trim_fixed) (rule trim_ends)

text \<open>
  Claim C8. Symbol normalisation, the \<^verbatim>\<open>trim\<close> followed by \<^verbatim>\<open>toUpperCase\<close> that
  \<^verbatim>\<open>fetchStockDataApi\<close> applies to its ticker, is idempotent: for every string, normalising
  the normalised symbol changes nothing.
\<close>

theorem normalize_ticker_idempotent:
  "normalize_ticker (normalize_ticker s) = normalize_ticker s"
  by (simp add: normalize_ticker_def trim_toUpperCase trim_trim toUpperCase_idem)

text \<open>
  C8 on a symbol with a no-break space in front, a sharp s, an e with acute, a Deseret
  letter from beyond the basic plane, and an ideographic space and a byte order mark behind:
  normalised it is \<^verbatim>\<open>SS\<close>, \<^verbatim>\<open>U+00C9\<close>, \<^verbatim>\<open>U+10400\<close>, and normalising that again gives the same.
\<close>

theorem normalize_ticker_idempotent_witness:
  "normalize_ticker [0xA0, 0xDF, 0xE9, 0x10428, 0x3000, 0xFEFF] = [0x53, 0x53, 0xC9, 0x10400]
   \<and> normalize_ticker [0x53, 0x53, 0xC9, 0x10400] = [0x53, 0x53, 0xC9, 0x10400]"
proof -
  have n: "normalize_ticker [0xA0, 0xDF, 0xE9, 0x10428, 0x3000, 0xFEFF]
             = [0x53, 0x53, 0xC9, 0x10400]"
    by (simp add: normalize_ticker_def trim_def isWhiteSpace_def WhiteSpace_points_def
          toUpperCase_def toUpperCase_cp_def lookup_eval upper_block_01_def upper_block_38_def
          del: map_of.simps)
  from normalize_ticker_idempotent [of "[0xA0, 0xDF, 0xE9, 0x10428, 0x3000, 0xFEFF]"] n
  show ?thesis
    by simp
qed

section \<open>The data fetcher: validation, request and response\<close>

lemma normalize_empty_iff: "normalize_ticker s = [] \<longleftrightarrow> trim s = []"
  by (simp add: normalize_ticker_def toUpperCase_empty_iff)

lemma start_empty:
  "trim s = [] \<Longrightarrow> fetchStockDataApi_start s p iv = ([], Inl ValidationError)"
  by (simp add: fetchStockDataApi_start_def normalize_empty_iff)

lemma urlencoded_names:
  "urlencoded (ascii ''period'') = ascii ''period''"
  "urlencoded (ascii ''interval'') = ascii ''interval''"
  by (simp_all add: urlencoded_def urlencoded_byte_def urlencoded_keep_def utf8_def ascii_def)

lemma start_nonempty:
  "trim s \<noteq> [] \<Longrightarrow>
   fetchStockDataApi_start s p iv =
     ([ConsoleLog (ascii ''Fetching data from: '' @ API_BASE_URL @ ascii ''/api/stockdata/''
          @ toUpperCase (trim s) @ ascii ''?period='' @ urlencoded p
          @ ascii ''&interval='' @ urlencoded iv),
       HttpGet (API_BASE_URL @ ascii ''/api/stockdata/'' @ toUpperCase (trim s)
          @ ascii ''?period='' @ urlencoded p @ ascii ''&interval='' @ urlencoded iv)],
      Inr (API_BASE_URL @ ascii ''/api/stockdata/'' @ toUpperCase (trim s)
          @ ascii ''?period='' @ urlencoded p @ ascii ''&interval='' @ urlencoded iv))"
  apply (simp add: fetchStockDataApi_start_def normalize_empty_iff Let_def urlencoded_names)
  apply (simp add: normalize_ticker_def ascii_def)
  done

text \<open>
  Claim C5. For every symbol that is empty after trimming white space, \<^verbatim>\<open>fetchStockDataApi\<close>
  fails with the validation error before any request: its list of effects is empty (no
  console line, no call of \<^verbatim>\<open>fetch\<close>) and the promise is rejected with \<open>ValidationError\<close>,
  whatever the network would have answered.
\<close>

theorem empty_ticker_rejected:
  assumes "trim s = []"
  shows "fetchStockDataApi net s p iv = ([], Inl ValidationError)"
  using assms by (simp add: fetchStockDataApi_def start_empty)

text \<open>C5 at a symbol made of a no-break space, a space and a byte order mark.\<close>

theorem empty_ticker_rejected_witness:
  "trim [0xA0, 0x20, 0xFEFF] = [] \<and>
   fetchStockDataApi (net_const (NetFail (ascii ''Failed to fetch''))) [0xA0, 0x20, 0xFEFF]
       (ascii ''5d'') (ascii ''15m'')
     = ([], Inl ValidationError)"
proof -
  have h: "trim [0xA0, 0x20, 0xFEFF] = []"
    by (simp add: trim_def isWhiteSpace_def WhiteSpace_points_def)
  from empty_ticker_rejected [OF h] h show ?thesis
    by simp
qed

lemma resume_Inr:
  "fetchStockDataApi_resume nr = Inr d \<Longrightarrow>
     (\<exists>r. nr = NetResp r \<and> response_ok r \<and> body r = Inr d) \<and> truthy d \<and> isArray (get_history d)"
  by (auto simp: fetchStockDataApi_resume_def split: net_result.splits if_splits sum.splits)

lemma isArray_get_history_iff:
  "isArray (get_history d) \<longleftrightarrow>
     (\<exists>kvs xs. d = JObj kvs \<and> map_of kvs (ascii ''history'') = Some (JArr xs))"
proof (cases d)
  case (JObj kvs)
  then show ?thesis
    by (cases "map_of kvs (ascii ''history'')"; cases "the (map_of kvs (ascii ''history''))"; simp)
qed simp_all

lemma resume_FormatError:
  "response_ok r \<Longrightarrow>
   fetchStockDataApi_resume (NetResp r) = Inl FormatError \<longleftrightarrow>
     (\<exists>data. body r = Inr data \<and> (\<not> truthy data \<or> \<not> isArray (get_history data)))"
  by (auto simp: fetchStockDataApi_resume_def split: sum.splits)

lemma resume_HttpError:
  "\<not> response_ok r \<Longrightarrow>
   fetchStockDataApi_resume (NetResp r) = Inl (HttpError (status r) (statusText r))"
  by (simp add: fetchStockDataApi_resume_def)

lemma message_HttpError_contains:
  "sublist (Number_toString st) (message (HttpError st txt)) \<and> sublist txt (message (HttpError st txt))"
proof -
  have "message (HttpError st txt)
          = ascii ''API Error ('' @ Number_toString st @ (ascii ''): '' @ txt)"
    by simp
  then have a: "sublist (Number_toString st) (message (HttpError st txt))"
    unfolding sublist_def by blast
  have "message (HttpError st txt)
          = (ascii ''API Error ('' @ Number_toString st @ ascii ''): '') @ txt @ []"
    by simp
  then have b: "sublist txt (message (HttpError st txt))"
    unfolding sublist_def by blast
  from a b show ?thesis ..
qed

lemma Number_toString_500: "Number_toString 500 = ascii ''500''"
  by (simp add: Number_toString.simps digit_char_def ascii_def)

lemma call_snd:
  "snd (fetchStockDataApi_start tk p iv) = Inr url \<Longrightarrow>
   snd (fetchStockDataApi net tk p iv) = fetchStockDataApi_resume (net url)"
  by (cases "fetchStockDataApi_start tk p iv") (auto simp: fetchStockDataApi_def)

lemma call_fst: "fst (fetchStockDataApi net tk p iv) = fst (fetchStockDataApi_start tk p iv)"
  by (cases "fetchStockDataApi_start tk p iv") (auto simp: fetchStockDataApi_def split: sum.splits)

lemma call_Inr:
  "snd (fetchStockDataApi net tk p iv) = Inr d \<Longrightarrow> isArray (get_history d)"
  by (cases "fetchStockDataApi_start tk p iv")
     (auto simp: fetchStockDataApi_def split: sum.splits dest: resume_Inr)

text \<open>The definitions a concrete call or run is computed with.\<close>

lemmas eval_defs = App_init_def effect_body_def effect_cleanup_def clearInterval_def
  fetchData_start_def fetchData_settle_def render_def derive_period_def PERIOD_FOR_INTRADAY_def
  DEFAULT_TICKER_def DEFAULT_INTERVAL_def fetchStockDataApi_start_def normalize_ticker_def
  trim_def isWhiteSpace_def WhiteSpace_points_def toUpperCase_def toUpperCase_cp_def
  lookup_eval upper_block_00_def upper_block_01_def urlencoded_def urlencoded_byte_def
  urlencoded_keep_def utf8_def API_BASE_URL_def hex2_def hex_digit_def Let_def ascii_def
  fetchStockDataApi_resume_def response_ok_def Number_toString.simps digit_char_def

text \<open>
  Claim C6. On an HTTP success status the fetcher parses the body as JSON and fails with the
  format error exactly when the parsed value is missing (falsy) or its \<^verbatim>\<open>history\<close> is not an
  array; a body that does not parse is rejected with the parser's error instead. Any value the
  fetcher returns is the parsed body, an object whose \<^verbatim>\<open>history\<close> property is an array. The
  witness is the scenario of the specification: the body \<^verbatim>\<open>{history: "not-an-array"}\<close> gives
  the format error.
\<close>

theorem format_error_exactly:
  assumes "snd (fetchStockDataApi_start tk p iv) = Inr url"
    and "net url = NetResp r"
    and "response_ok r"
  shows "(snd (fetchStockDataApi net tk p iv) = Inl FormatError
            \<longleftrightarrow> (\<exists>data. body r = Inr data \<and> (\<not> truthy data \<or> \<not> isArray (get_history data))))
         \<and> (\<forall>d. snd (fetchStockDataApi net tk p iv) = Inr d \<longrightarrow> body r = Inr d)
         \<and> (\<forall>net' tk' p' iv' d. snd (fetchStockDataApi net' tk' p' iv') = Inr d
               \<longrightarrow> (\<exists>kvs xs. d = JObj kvs \<and> map_of kvs (ascii ''history'') = Some (JArr xs)))"
proof -
  have eq: "snd (fetchStockDataApi net tk p iv) = fetchStockDataApi_resume (NetResp r)"
    using assms(1,2) by (simp add: call_snd)
  have a: "snd (fetchStockDataApi net tk p iv) = Inl FormatError
            \<longleftrightarrow> (\<exists>data. body r = Inr data \<and> (\<not> truthy data \<or> \<not> isArray (get_history data)))"
    unfolding eq using assms(3) by (rule resume_FormatError)
  have b: "body r = Inr d" if "snd (fetchStockDataApi net tk p iv) = Inr d" for d
  proof -
    from that have "fetchStockDataApi_resume (NetResp r) = Inr d"
      by (simp add: eq)
    from resume_Inr [OF this] show ?thesis
      by simp
  qed
  have c: "\<exists>kvs xs. d = JObj kvs \<and> map_of kvs (ascii ''history'') = Some (JArr xs)"
    if "snd (fetchStockDataApi net' tk' p' iv') = Inr d" for net' tk' p' iv' d
    using call_Inr [OF that] by (simp add: isArray_get_history_iff)
  from a b c show ?thesis by blast
qed

text \<open>C6 at the body \<^verbatim>\<open>{history: "not-an-array"}\<close> of an HTTP 200 response.\<close>

theorem format_error_exactly_witness:
  "snd (fetchStockDataApi
         (net_const (NetResp \<lparr>status = 200, statusText = ascii ''OK'',
                                 body = Inr (JObj [(ascii ''history'', JStr (ascii ''not-an-array''))])\<rparr>))
         (ascii ''aapl'') (ascii ''5d'') (ascii ''15m'')) = Inl FormatError"
proof -
  let ?r = "\<lparr>status = 200, statusText = ascii ''OK'',
              body = Inr (JObj [(ascii ''history'', JStr (ascii ''not-an-array''))])\<rparr>"
  let ?url = "ascii ''http://localhost:5000/api/stockdata/AAPL?period=5d&interval=15m''"
  have h1: "snd (fetchStockDataApi_start (ascii ''aapl'') (ascii ''5d'') (ascii ''15m'')) = Inr ?url"
    by (simp add: eval_defs del: map_of.simps)
  have h2: "net_const (NetResp ?r) ?url = NetResp ?r"
    by (simp add: net_const_def)
  have h3: "response_ok ?r"
    by (simp add: response_ok_def)
  from format_error_exactly [where net = "net_const (NetResp ?r)", OF h1 h2 h3] show ?thesis
    by (simp add: ascii_def)
qed

section \<open>The polling controller: what each callback changes\<close>

lemma fetchData_start_fields:
  "isLoading (fetchData_start t i a) = True"
  "error (fetchData_start t i a) = None"
  "stockData (fetchData_start t i a) = stockData a"
  "ticker (fetchData_start t i a) = ticker a"
  "interval (fetchData_start t i a) = interval a"
  "pollingTimerRef (fetchData_start t i a) = pollingTimerRef a"
  "phase (fetchData_start t i a) = phase a"
  "intervalQueue (fetchData_start t i a) = intervalQueue a"
  "timers (fetchData_start t i a) = timers a"
  "fetchCalls (fetchData_start t i a) = Suc (fetchCalls a)"
  "effects (fetchData_start t i a) =
     effects a @ fst (fetchStockDataApi_start t (derive_period i) (ToString i))"
  "inflight (fetchData_start t i a) =
     inflight a @ [snd (fetchStockDataApi_start t (derive_period i) (ToString i))]"
  by (simp_all add: fetchData_start_def Let_def split: prod.splits)

lemma clearInterval_fields:
  "isLoading (clearInterval h a) = isLoading a"
  "error (clearInterval h a) = error a"
  "stockData (clearInterval h a) = stockData a"
  "ticker (clearInterval h a) = ticker a"
  "interval (clearInterval h a) = interval a"
  "pollingTimerRef (clearInterval h a) = pollingTimerRef a"
  "phase (clearInterval h a) = phase a"
  "intervalQueue (clearInterval h a) = intervalQueue a"
  "fetchCalls (clearInterval h a) = fetchCalls a"
  "effects (clearInterval h a) = effects a"
  "inflight (clearInterval h a) = inflight a"
  "timers a = [] \<Longrightarrow> timers (clearInterval h a) = []"
  by (simp_all add: clearInterval_def split: option.splits)

lemma effect_cleanup_fields:
  "isLoading (effect_cleanup a) = isLoading a"
  "error (effect_cleanup a) = error a"
  "stockData (effect_cleanup a) = stockData a"
  "ticker (effect_cleanup a) = ticker a"
  "interval (effect_cleanup a) = interval a"
  "pollingTimerRef (effect_cleanup a) = pollingTimerRef a"
  "phase (effect_cleanup a) = phase a"
  "intervalQueue (effect_cleanup a) = intervalQueue a"
  "fetchCalls (effect_cleanup a) = fetchCalls a"
  "effects (effect_cleanup a) = effects a"
  "inflight (effect_cleanup a) = inflight a"
  "timers a = [] \<Longrightarrow> timers (effect_cleanup a) = []"
  by (simp_all add: effect_cleanup_def clearInterval_fields)

lemma effect_body_fields:
  "isLoading (effect_body a) = True"
  "error (effect_body a) = None"
  "stockData (effect_body a) = stockData a"
  "ticker (effect_body a) = ticker a"
  "interval (effect_body a) = interval a"
  "pollingTimerRef (effect_body a) = None"
  "phase (effect_body a) = phase a"
  "intervalQueue (effect_body a) = intervalQueue a @ [Updater (ticker a) (interval a)]"
  "fetchCalls (effect_body a) = Suc (fetchCalls a)"
  "effects (effect_body a) =
     effects a @ fst (fetchStockDataApi_start (ticker a) (derive_period (interval a)) (ToString (interval a)))"
  "inflight (effect_body a) =
     inflight a @ [snd (fetchStockDataApi_start (ticker a) (derive_period (interval a)) (ToString (interval a)))]"
  "timers a = [] \<Longrightarrow> timers (effect_body a) = []"
  by (simp_all add: effect_body_def Let_def fetchData_start_fields clearInterval_fields
        split: option.splits)

lemma fetchData_settle_fields:
  "isLoading (fetchData_settle res a) = False"
  "stockData (fetchData_settle (Inl err) a) = stockData a"
  "stockData (fetchData_settle (Inr d) a) = d"
  "error (fetchData_settle (Inl err) a) = Some (message err)"
  "error (fetchData_settle (Inr d) a) = error a"
  "timers (fetchData_settle res a) = timers a"
  "pollingTimerRef (fetchData_settle res a) = pollingTimerRef a"
  "inflight (fetchData_settle res a) = inflight a"
  "phase (fetchData_settle res a) = phase a"
  "ticker (fetchData_settle res a) = ticker a"
  "interval (fetchData_settle res a) = interval a"
  "intervalQueue (fetchData_settle res a) = intervalQueue a"
  "fetchCalls (fetchData_settle res a) = fetchCalls a"
  by (simp_all add: fetchData_settle_def Let_def split: sum.splits)

lemma apply_interval_updates_fields:
  "stockData (apply_interval_updates q a) = stockData a"
  "timers (apply_interval_updates q a) = timers a"
  "pollingTimerRef (apply_interval_updates q a) = pollingTimerRef a"
  "phase (apply_interval_updates q a) = phase a"
  "ticker (apply_interval_updates q a) = ticker a"
  by (induction q a rule: apply_interval_updates.induct; simp add: fetchData_start_fields)+

text \<open>
  A render that starts a fetch leaves \<^verbatim>\<open>isLoading\<close> true and the error cleared, whatever was
  set before it.
\<close>

lemma apply_interval_updates_loading:
  "(isLoading a \<and> error a = None)
     \<or> length (inflight a) < length (inflight (apply_interval_updates q a))
   \<Longrightarrow> isLoading (apply_interval_updates q a) \<and> error (apply_interval_updates q a) = None"
  by (induction q a rule: apply_interval_updates.induct) (simp_all add: fetchData_start_fields)

lemma render_fields:
  "stockData (render t0 i0 a) = stockData a"
  "timers a = [] \<Longrightarrow> timers (render t0 i0 a) = []"
  "pollingTimerRef a = None \<Longrightarrow> pollingTimerRef (render t0 i0 a) = None"
  "phase (render t0 i0 a) = phase a"
  by (simp_all add: render_def Let_def effect_body_fields effect_cleanup_fields
        apply_interval_updates_fields)

lemma render_loading:
  assumes "length (inflight a) < length (inflight (render t0 i0 a))"
  shows "isLoading (render t0 i0 a) \<and> error (render t0 i0 a) = None"
proof -
  let ?a1 = "apply_interval_updates (intervalQueue a) (a\<lparr>intervalQueue := []\<rparr>)"
  show ?thesis
  proof (cases "ticker ?a1 \<noteq> t0 \<or> interval ?a1 \<noteq> i0")
    case True
    then show ?thesis
      by (simp add: render_def Let_def effect_body_fields)
  next
    case False
    then have r: "render t0 i0 a = ?a1"
      by (simp add: render_def Let_def)
    with assms have "length (inflight (a\<lparr>intervalQueue := []\<rparr>)) < length (inflight ?a1)"
      by simp
    then have "isLoading ?a1 \<and> error ?a1 = None"
      by (intro apply_interval_updates_loading) simp
    with r show ?thesis
      by simp
  qed
qed

lemma run_Nil: "run [] a = a"
  by (simp add: run_def)

lemma run_Cons: "run (e # evs) a = run evs (step e a)"
  by (simp add: run_def)

section \<open>The lookback period\<close>

text \<open>
  Claim C1. For every interval string \<open>i\<close> the period the controller derives is \<^verbatim>\<open>"5d"\<close> when
  \<open>i\<close> is one of \<^verbatim>\<open>"1m"\<close>, \<^verbatim>\<open>"5m"\<close>, \<^verbatim>\<open>"15m"\<close>, and \<^verbatim>\<open>"1y"\<close> otherwise. It is a function of the
  interval alone: whatever the ticker and the state of the component, the request that
  \<^verbatim>\<open>fetchData\<close> issues carries the period derived from the interval it was called with.
\<close>

theorem derive_period_table:
  "derive_period (StrVal i)
     = (if i \<in> {ascii ''1m'', ascii ''5m'', ascii ''15m''} then ascii ''5d'' else ascii ''1y'')
   \<and> effects (fetchData_start t (StrVal i) a)
       = effects a @ fst (fetchStockDataApi_start t (derive_period (StrVal i)) i)"
  by (simp add: derive_period_def PERIOD_FOR_INTRADAY_def fetchData_start_fields)

text \<open>The table of C1 at the three intraday intervals, at a daily one and at the empty string.\<close>

theorem derive_period_table_witness:
  "derive_period (StrVal (ascii ''1m'')) = ascii ''5d''
   \<and> derive_period (StrVal (ascii ''5m'')) = ascii ''5d''
   \<and> derive_period (StrVal (ascii ''15m'')) = ascii ''5d''
   \<and> derive_period (StrVal (ascii ''1d'')) = ascii ''1y''
   \<and> derive_period (StrVal []) = ascii ''1y''"
  using derive_period_table [of "ascii ''1m''"] derive_period_table [of "ascii ''5m''"]
    derive_period_table [of "ascii ''15m''"] derive_period_table [of "ascii ''1d''"]
    derive_period_table [of "[]"]
  by (simp add: ascii_def)

text \<open>What an event does to the data, and the state of the component once mounted.\<close>

lemma step_stockData_other:
  "(\<forall>k nr. e \<noteq> Settle k nr) \<Longrightarrow> stockData (step e a) = stockData a"
  by (cases e) (simp_all add: render_fields effect_body_fields effect_cleanup_fields)

lemma step_stockData_Settle:
  assumes "phase a = Active" and "k < length (inflight a)"
  shows "stockData (step (Settle k nr) a)
          = stockData (fetchData_settle (settle_result (inflight a ! k) nr) a)"
  using assms
  by (cases "settle_result (inflight a ! k) nr")
     (simp_all add: Let_def render_fields fetchData_settle_fields)

lemma settle_result_failed:
  "\<not> response_ok r \<Longrightarrow> \<exists>e. settle_result c (NetResp r) = Inl e"
  by (cases c) (simp_all add: fetchStockDataApi_resume_def)

lemma step_stockData_failed:
  assumes "\<not> response_ok r"
  shows "stockData (step (Settle k (NetResp r)) a) = stockData a"
proof -
  from settle_result_failed [OF assms]
  obtain e where "settle_result (inflight a ! k) (NetResp r) = Inl e" ..
  then show ?thesis
    by (simp add: Let_def render_fields fetchData_settle_fields)
qed

lemma step_phase: "e \<noteq> Unmount \<Longrightarrow> phase a = Active \<Longrightarrow> phase (step e a) = Active"
  by (cases e) (simp_all add: Let_def render_fields fetchData_settle_fields)

lemma apply_interval_updates_inflight:
  "length (inflight a) \<le> length (inflight (apply_interval_updates q a))"
proof (induction q a rule: apply_interval_updates.induct)
  case (3 t i us a)
  then show ?case
    by (simp add: fetchData_start_fields)
qed simp_all

text \<open>A render that follows a change of the ticker runs the effect, which starts a fetch.\<close>

lemma render_ticker_changed:
  assumes "ticker a \<noteq> t0"
  shows "length (inflight a) < length (inflight (render t0 i0 a))"
proof -
  let ?a1 = "apply_interval_updates (intervalQueue a) (a\<lparr>intervalQueue := []\<rparr>)"
  have "length (inflight a) \<le> length (inflight ?a1)"
    using apply_interval_updates_inflight [of "a\<lparr>intervalQueue := []\<rparr>" "intervalQueue a"]
    by simp
  moreover from assms have "render t0 i0 a = effect_body (effect_cleanup ?a1)"
    by (simp add: render_def Let_def apply_interval_updates_fields)
  ultimately show ?thesis
    by (simp add: effect_body_fields effect_cleanup_fields)
qed

declare step.simps [simp del]

lemma trim_DEFAULT_TICKER: "trim DEFAULT_TICKER \<noteq> []"
  by (simp add: DEFAULT_TICKER_def trim_def isWhiteSpace_def WhiteSpace_points_def ascii_def)

lemma settle_result_start:
  "trim s \<noteq> [] \<Longrightarrow>
   settle_result (snd (fetchStockDataApi_start s p iv)) nr = fetchStockDataApi_resume nr"
  by (simp add: start_nonempty)

lemma mounted:
  "phase (step Mount App_init) = Active"
  "ticker (step Mount App_init) = DEFAULT_TICKER"
  "interval (step Mount App_init) = StrVal DEFAULT_INTERVAL"
  "stockData (step Mount App_init) = JObj [(ascii ''info'', JNull), (ascii ''history'', JArr [])]"
  "intervalQueue (step Mount App_init) = [Updater DEFAULT_TICKER (StrVal DEFAULT_INTERVAL)]"
  "fetchCalls (step Mount App_init) = 1"
  "inflight (step Mount App_init)
     = [snd (fetchStockDataApi_start DEFAULT_TICKER (derive_period (StrVal DEFAULT_INTERVAL))
               DEFAULT_INTERVAL)]"
  by (simp_all add: step.simps App_init_def effect_body_fields)

lemma resume_example_ok:
  "fetchStockDataApi_resume (NetResp example_ok_response) = Inr example_data"
  by (simp add: fetchStockDataApi_resume_def response_ok_def example_ok_response_def
        example_data_def ascii_def)

lemma example_500_not_ok: "\<not> response_ok example_500_response"
  by (simp add: response_ok_def example_500_response_def)

text \<open>The first fetch of the mounted component, answered by the well-formed example.\<close>

lemma first_fetch_stored:
  "stockData (step (Settle 0 (NetResp example_ok_response)) (step Mount App_init)) = example_data"
  "phase (step (Settle 0 (NetResp example_ok_response)) (step Mount App_init)) = Active"
proof -
  have "stockData (step (Settle 0 (NetResp example_ok_response)) (step Mount App_init))
          = stockData (fetchData_settle
              (settle_result (inflight (step Mount App_init) ! 0) (NetResp example_ok_response))
              (step Mount App_init))"
    by (rule step_stockData_Settle) (simp_all add: mounted)
  then show "stockData (step (Settle 0 (NetResp example_ok_response)) (step Mount App_init))
               = example_data"
    by (simp add: mounted settle_result_start [OF trim_DEFAULT_TICKER] resume_example_ok
          fetchData_settle_fields)
  show "phase (step (Settle 0 (NetResp example_ok_response)) (step Mount App_init)) = Active"
    by (rule step_phase) (simp_all add: mounted)
qed

section \<open>The start of a fetch\<close>

text \<open>
  Claim C2, as the specification states it, fails: the start of a fetch does not clear the
  current data. After a first successful fetch the user types a new ticker; the fetch for it
  has started, and the component still holds the data of the old one.
\<close>

theorem fetch_start_clears_data_counterexample:
  "stockData (run [Mount, Settle 0 (NetResp example_ok_response), InputTicker (ascii ''MSFT'')]
                App_init)
     = example_data
   \<and> \<not> data_cleared
        (stockData (run [Mount, Settle 0 (NetResp example_ok_response), InputTicker (ascii ''MSFT'')]
                      App_init))"
proof -
  have "stockData (run [Mount, Settle 0 (NetResp example_ok_response), InputTicker (ascii ''MSFT'')]
                App_init) = example_data"
    by (simp add: run_def step_stockData_other first_fetch_stored)
  moreover have "\<not> data_cleared example_data"
    by (simp add: data_cleared_def example_data_def ascii_def)
  ultimately show ?thesis
    by simp
qed

text \<open>
  Claim C2, amended. At the start of every fetch the controller issues, it clears the error
  and sets \<^verbatim>\<open>isLoading\<close> to true, and it leaves the current data as it is. This holds of
  \<^verbatim>\<open>fetchData\<close> itself. It holds of the events of the component: after every event that
  issues a fetch (one after which more fetcher calls are pending than before) \<^verbatim>\<open>isLoading\<close>
  is true and the error is cleared; no event but the settling of a fetch changes the data,
  and when a fetch settles the data is what the rest of \<^verbatim>\<open>fetchData\<close> made of it, untouched by
  the fetches that the following render starts.
\<close>

theorem fetch_start_state:
  "isLoading (fetchData_start t i a) \<and> error (fetchData_start t i a) = None
   \<and> stockData (fetchData_start t i a) = stockData a
   \<and> (length (inflight a) < length (inflight (step e a)) \<longrightarrow>
        isLoading (step e a) \<and> error (step e a) = None)
   \<and> ((\<forall>k nr. e \<noteq> Settle k nr) \<longrightarrow> stockData (step e a) = stockData a)
   \<and> (phase a = Active \<and> k < length (inflight a) \<longrightarrow>
        stockData (step (Settle k nr) a)
          = stockData (fetchData_settle (settle_result (inflight a ! k) nr) a))"
proof -
  have l: "isLoading (step e a) \<and> error (step e a) = None"
    if "length (inflight a) < length (inflight (step e a))"
  proof (cases e)
    case (Settle k nr)
    with that show ?thesis
      by (auto simp: step.simps Let_def fetchData_settle_fields split: if_splits
            intro!: render_loading)
  qed (use that in \<open>auto simp: step.simps effect_body_fields effect_cleanup_fields
         split: if_splits intro!: render_loading\<close>)
  from l step_stockData_other [of e a] step_stockData_Settle [of a k nr] show ?thesis
    by (simp add: fetchData_start_fields)
qed

text \<open>The amended C2 at a change of the ticker of the mounted component.\<close>

theorem fetch_start_state_witness:
  "length (inflight (run [Mount] App_init))
     < length (inflight (step (InputTicker (ascii ''MSFT'')) (run [Mount] App_init)))
   \<and> isLoading (step (InputTicker (ascii ''MSFT'')) (run [Mount] App_init))
   \<and> error (step (InputTicker (ascii ''MSFT'')) (run [Mount] App_init)) = None
   \<and> stockData (step (InputTicker (ascii ''MSFT'')) (run [Mount] App_init))
       = stockData (run [Mount] App_init)"
proof -
  have r: "run [Mount] App_init = step Mount App_init"
    by (simp add: run_def)
  have "ascii ''MSFT'' \<noteq> DEFAULT_TICKER"
    by (simp add: DEFAULT_TICKER_def ascii_def)
  then have h: "length (inflight (run [Mount] App_init))
     < length (inflight (step (InputTicker (ascii ''MSFT'')) (run [Mount] App_init)))"
    unfolding r using render_ticker_changed
      [of "(step Mount App_init)\<lparr>ticker := ascii ''MSFT''\<rparr>" DEFAULT_TICKER "StrVal DEFAULT_INTERVAL"]
    by (simp add: mounted step.simps(2))
  from fetch_start_state [of "ticker App_init" "interval App_init" "run [Mount] App_init"
      "InputTicker (ascii ''MSFT'')"] h
  show ?thesis by simp
qed

section \<open>The shape of the stored data\<close>

lemma step_history:
  assumes inv: "isArray (get_history (stockData a))"
  shows "isArray (get_history (stockData (step e a)))"
proof (cases e)
  case (Settle k nr)
  show ?thesis
  proof (cases "k < length (inflight a) \<and> phase a = Active")
    case True
    then have "stockData (step e a)
                 = stockData (fetchData_settle (settle_result (inflight a ! k) nr) a)"
      using Settle by (simp add: step_stockData_Settle)
    then show ?thesis
      using inv
      by (cases "inflight a ! k"; cases "fetchStockDataApi_resume nr")
         (auto simp: fetchData_settle_fields dest: resume_Inr)
  next
    case False
    then show ?thesis using Settle inv
      by (auto simp: step.simps Let_def)
  qed
qed (simp_all add: inv step_stockData_other)

lemma run_history:
  "isArray (get_history (stockData a)) \<Longrightarrow> isArray (get_history (stockData (run evs a)))"
  by (induction evs arbitrary: a) (simp_all add: run_Nil run_Cons step_history)

lemma App_init_history: "isArray (get_history (stockData App_init))"
  by (simp add: App_init_def ascii_def)

text \<open>
  Claim C9. In every state the component reaches, \<^verbatim>\<open>stockData.history\<close> is an array: the
  initial data is \<^verbatim>\<open>{ info: null, history: [] }\<close>; after any sequence of events from the
  initial state the stored data has an array-valued \<^verbatim>\<open>history\<close>; a failed fetch leaves the
  stored data unchanged; a successful fetch stores a value only when the fetcher returned it,
  and then its \<^verbatim>\<open>history\<close> passed the \<^verbatim>\<open>Array.isArray\<close> test; and every single event keeps
  the property.
\<close>

theorem history_always_array:
  "stockData App_init = JObj [(ascii ''info'', JNull), (ascii ''history'', JArr [])]
   \<and> isArray (get_history (stockData (run evs App_init)))
   \<and> stockData (fetchData_settle (Inl err) a) = stockData a
   \<and> (fetchStockDataApi_resume nr = Inr d
        \<longrightarrow> isArray (get_history d) \<and> stockData (fetchData_settle (Inr d) a) = d)
   \<and> (isArray (get_history (stockData a)) \<longrightarrow> isArray (get_history (stockData (step e a))))"
proof -
  from run_history [OF App_init_history] step_history [of a e] resume_Inr [of nr d]
  show ?thesis
    by (auto simp: fetchData_settle_fields App_init_def ascii_def)
qed

text \<open>
  C9 on two runs: one in which a well-formed answer is stored, and one with a failed fetch,
  a further render and the unmount.
\<close>

theorem history_always_array_witness:
  "fetchStockDataApi_resume (NetResp example_ok_response) = Inr example_data
   \<and> stockData (run [Mount, Settle 0 (NetResp example_ok_response)] App_init) = example_data
   \<and> isArray (get_history (stockData (run [Mount, Settle 0 (NetResp example_ok_response)] App_init)))
   \<and> isArray (get_history (stockData
        (run [Mount, Settle 0 (NetResp example_500_response), Render, Unmount] App_init)))"
proof -
  have s: "stockData (run [Mount, Settle 0 (NetResp example_ok_response)] App_init) = example_data"
    by (simp add: run_def first_fetch_stored)
  from history_always_array [of "[Mount, Settle 0 (NetResp example_ok_response)]"]
    history_always_array
      [of "[Mount, Settle 0 (NetResp example_500_response), Render, Unmount]"]
    resume_example_ok s
  show ?thesis by simp
qed

section \<open>A response that is not a success\<close>

text \<open>A render with an updater at the head of the queue starts a fetch.\<close>

lemma render_updater_queued:
  assumes "intervalQueue a = Updater t i # q"
  shows "length (inflight a) < length (inflight (render t0 i0 a))"
proof -
  let ?b = "(fetchData_start t i (a\<lparr>intervalQueue := []\<rparr>))
              \<lparr>interval := PromiseVal (fetchCalls (a\<lparr>intervalQueue := []\<rparr>))\<rparr>"
  let ?a1 = "apply_interval_updates (intervalQueue a) (a\<lparr>intervalQueue := []\<rparr>)"
  have a1: "?a1 = apply_interval_updates q ?b"
    by (simp add: assms)
  have "length (inflight a) < length (inflight ?b)"
    by (simp add: fetchData_start_fields)
  also have "\<dots> \<le> length (inflight ?a1)"
    unfolding a1 by (rule apply_interval_updates_inflight)
  finally have "length (inflight a) < length (inflight ?a1)" .
  then show ?thesis
    by (simp add: render_def Let_def effect_body_fields effect_cleanup_fields)
qed

lemma after_first_fetch_inflight:
  "0 < length (inflight (step (Settle 0 (NetResp example_ok_response)) (step Mount App_init)))"
proof -
  let ?a = "step Mount App_init"
  let ?res = "settle_result (inflight ?a ! 0) (NetResp example_ok_response)"
  let ?b = "fetchData_settle ?res (?a\<lparr>inflight := drop_nth 0 (inflight ?a)\<rparr>)"
  have s: "step (Settle 0 (NetResp example_ok_response)) ?a
             = render (ticker ?a) (interval ?a) ?b"
    by (simp add: step.simps(5) mounted Let_def del: drop_nth.simps)
  have "intervalQueue ?b = Updater DEFAULT_TICKER (StrVal DEFAULT_INTERVAL) # []"
    by (simp add: fetchData_settle_fields mounted)
  from render_updater_queued [OF this, of "ticker ?a" "interval ?a"] show ?thesis
    unfolding s by (rule le_less_trans [OF le0])
qed

text \<open>
  Claim C3, as the specification states it, fails on the controller. The first fetch of the
  mounted component stores the well-formed example; a fetch is then pending, and the backend
  answers it with HTTP 500. After the failure is recorded the data is the stored example:
  it is not \<^verbatim>\<open>null\<close>, and it is not the empty value the component started with either.
\<close>

theorem http_500_data_null_counterexample:
  "0 < length (inflight (run [Mount, Settle 0 (NetResp example_ok_response)] App_init))
   \<and> stockData (run [Mount, Settle 0 (NetResp example_ok_response),
                     Settle 0 (NetResp example_500_response)] App_init) = example_data
   \<and> stockData (run [Mount, Settle 0 (NetResp example_ok_response),
                     Settle 0 (NetResp example_500_response)] App_init) \<noteq> JNull
   \<and> stockData (run [Mount, Settle 0 (NetResp example_ok_response),
                     Settle 0 (NetResp example_500_response)] App_init)
       \<noteq> JObj [(ascii ''info'', JNull), (ascii ''history'', JArr [])]"
proof -
  have "stockData (run [Mount, Settle 0 (NetResp example_ok_response),
                     Settle 0 (NetResp example_500_response)] App_init) = example_data"
    by (simp add: run_def step_stockData_failed [OF example_500_not_ok] first_fetch_stored)
  moreover have "example_data \<noteq> JNull"
    "example_data \<noteq> JObj [(ascii ''info'', JNull), (ascii ''history'', JArr [])]"
    by (simp_all add: example_data_def ascii_def)
  ultimately show ?thesis
    using after_first_fetch_inflight by (simp add: run_def)
qed

text \<open>
  Claim C3, amended. If the backend answers a request with a status outside 200..299, the
  fetch fails with the error whose message is \<^verbatim>\<open>API Error (<status>): <statusText>\<close>, which
  contains the status code in decimal (\<^verbatim>\<open>500\<close> for the status 500) and the status text. To
  record a failure, the \<^verbatim>\<open>catch\<close> branch of \<^verbatim>\<open>fetchData\<close> passes the message of the error to
  \<^verbatim>\<open>setError\<close>, the \<^verbatim>\<open>finally\<close> branch passes \<^verbatim>\<open>false\<close> to \<^verbatim>\<open>setIsLoading\<close>, and neither touches the
  data. The data of the controller is never \<^verbatim>\<open>null\<close>.
\<close>

theorem http_error_surfaced:
  "(snd (fetchStockDataApi_start tk p iv) = Inr url \<and> net url = NetResp r \<and> \<not> response_ok r
      \<longrightarrow> snd (fetchStockDataApi net tk p iv) = Inl (HttpError (status r) (statusText r))
          \<and> message (HttpError (status r) (statusText r))
              = ascii ''API Error ('' @ Number_toString (status r) @ ascii ''): '' @ statusText r
          \<and> sublist (Number_toString (status r)) (message (HttpError (status r) (statusText r)))
          \<and> sublist (statusText r) (message (HttpError (status r) (statusText r))))
   \<and> Number_toString 500 = ascii ''500''
   \<and> error (fetchData_settle (Inl e) a) = Some (message e)
   \<and> isLoading (fetchData_settle (Inl e) a) = False
   \<and> stockData (fetchData_settle (Inl e) a) = stockData a
   \<and> stockData (run evs App_init) \<noteq> JNull"
proof -
  have f: "snd (fetchStockDataApi net tk p iv) = Inl (HttpError (status r) (statusText r))"
    if "snd (fetchStockDataApi_start tk p iv) = Inr url" "net url = NetResp r" "\<not> response_ok r"
    using that by (simp add: call_snd resume_HttpError)
  have "isArray (get_history (stockData (run evs App_init)))"
    by (rule run_history) (rule App_init_history)
  then have n: "stockData (run evs App_init) \<noteq> JNull"
    by auto
  from f n message_HttpError_contains [of "status r" "statusText r"] Number_toString_500
  show ?thesis
    by (simp add: fetchData_settle_fields)
qed

text \<open>The amended C3 at the scenario of the specification: the backend answers HTTP 500.\<close>

theorem http_error_surfaced_witness:
  "\<not> response_ok example_500_response
   \<and> snd (fetchStockDataApi (net_const (NetResp example_500_response))
            (ascii ''aapl'') (ascii ''5d'') (ascii ''15m''))
       = Inl (HttpError 500 (ascii ''Internal Server Error''))
   \<and> message (HttpError 500 (ascii ''Internal Server Error''))
       = ascii ''API Error (500): Internal Server Error''
   \<and> sublist (ascii ''500'') (message (HttpError 500 (ascii ''Internal Server Error'')))"
proof -
  let ?url = "ascii ''http://localhost:5000/api/stockdata/AAPL?period=5d&interval=15m''"
  have h1: "snd (fetchStockDataApi_start (ascii ''aapl'') (ascii ''5d'') (ascii ''15m'')) = Inr ?url"
    by (simp add: eval_defs del: map_of.simps)
  have h2: "net_const (NetResp example_500_response) ?url = NetResp example_500_response"
    by (simp add: net_const_def)
  have st: "status example_500_response = 500"
       "statusText example_500_response = ascii ''Internal Server Error''"
    by (simp_all add: example_500_response_def)
  have m: "message (HttpError 500 (ascii ''Internal Server Error''))
       = ascii ''API Error (500): Internal Server Error''"
    by (simp add: Number_toString_500) (simp add: ascii_def)
  from http_error_surfaced [where net = "net_const (NetResp example_500_response)"
      and tk = "ascii ''aapl''" and p = "ascii ''5d''" and iv = "ascii ''15m''" and url = ?url
      and r = example_500_response] h1 h2 example_500_not_ok
  have "snd (fetchStockDataApi (net_const (NetResp example_500_response))
            (ascii ''aapl'') (ascii ''5d'') (ascii ''15m''))
       = Inl (HttpError 500 (ascii ''Internal Server Error''))
     \<and> sublist (Number_toString 500) (message (HttpError 500 (ascii ''Internal Server Error'')))"
    by (simp add: st del: message.simps)
  with example_500_not_ok m show ?thesis
    by (simp add: Number_toString_500 del: message.simps)
qed

section \<open>The request\<close>

text \<open>
  Claim C4, as the specification states it, fails: the symbol is not escaped. For the symbol
  \<^verbatim>\<open>brk/b\<close> the one call of \<^verbatim>\<open>fetch\<close> is for \<^verbatim>\<open>.../api/stockdata/BRK/B?...\<close>, with the slash as
  it was typed, and not for the URL of the specification, whose path segment is \<^verbatim>\<open>BRK%2FB\<close>.
\<close>

theorem request_url_escaped_counterexample:
  "fst (fetchStockDataApi (net_const (NetFail (ascii ''Failed to fetch'')))
          (ascii ''brk/b'') (ascii ''5d'') (ascii ''15m''))
     = [ConsoleLog (ascii ''Fetching data from: http://localhost:5000/api/stockdata/BRK/B?period=5d&interval=15m''),
        HttpGet (ascii ''http://localhost:5000/api/stockdata/BRK/B?period=5d&interval=15m'')]
   \<and> spec_request_url API_BASE_URL (ascii ''brk/b'') (ascii ''5d'') (ascii ''15m'')
     = ascii ''http://localhost:5000/api/stockdata/BRK%2FB?period=5d&interval=15m''
   \<and> HttpGet (spec_request_url API_BASE_URL (ascii ''brk/b'') (ascii ''5d'') (ascii ''15m''))
       \<notin> set (fst (fetchStockDataApi (net_const (NetFail (ascii ''Failed to fetch'')))
                      (ascii ''brk/b'') (ascii ''5d'') (ascii ''15m'')))"
  by (simp add: call_fst eval_defs spec_request_url_def spec_path_escape_def spec_path_keep_def
        del: map_of.simps)

lemma urlencoded_derive_period: "urlencoded (derive_period i) = derive_period i"
  by (simp add: derive_period_def PERIOD_FOR_INTRADAY_def urlencoded_def urlencoded_byte_def
        urlencoded_keep_def utf8_def ascii_def)

text \<open>
  Claim C4, amended. For every symbol \<open>s\<close> that is not empty after trimming, the call logs one
  console line and calls \<^verbatim>\<open>fetch\<close> exactly once, with no options (a GET), on the string
  \<^verbatim>\<open>{baseUrl}/api/stockdata/{SYMBOL}?period={period}&interval={interval}\<close>, where \<^verbatim>\<open>{SYMBOL}\<close> is
  \<open>s\<close> trimmed and upper-cased, put into the string with no escaping, and the two query values
  are form-urlencoded. The periods the controller derives are unchanged by that encoding, and
  the symbol \<^verbatim>\<open>aapl\<close> with the interval \<^verbatim>\<open>15m\<close> makes the controller ask for the symbol \<^verbatim>\<open>AAPL\<close>
  with the period \<^verbatim>\<open>5d\<close>.
\<close>

theorem request_url:
  assumes "trim s \<noteq> []"
  shows
    "(let U = API_BASE_URL @ ascii ''/api/stockdata/'' @ toUpperCase (trim s)
                @ ascii ''?period='' @ urlencoded p @ ascii ''&interval='' @ urlencoded iv
      in fst (fetchStockDataApi net s p iv)
           = [ConsoleLog (ascii ''Fetching data from: '' @ U), HttpGet U]
         \<and> filter is_HttpGet (fst (fetchStockDataApi net s p iv)) = [HttpGet U])
     \<and> urlencoded (derive_period i) = derive_period i
     \<and> effects (fetchData_start (ascii ''aapl'') (StrVal (ascii ''15m'')) a)
         = effects a @
           [ConsoleLog (ascii ''Fetching data from: http://localhost:5000/api/stockdata/AAPL?period=5d&interval=15m''),
            HttpGet (ascii ''http://localhost:5000/api/stockdata/AAPL?period=5d&interval=15m'')]"
proof -
  have a: "effects (fetchData_start (ascii ''aapl'') (StrVal (ascii ''15m'')) a)
         = effects a @
           [ConsoleLog (ascii ''Fetching data from: http://localhost:5000/api/stockdata/AAPL?period=5d&interval=15m''),
            HttpGet (ascii ''http://localhost:5000/api/stockdata/AAPL?period=5d&interval=15m'')]"
    by (simp add: fetchData_start_fields) (simp add: eval_defs del: map_of.simps)
  from assms a show ?thesis
    by (simp add: call_fst start_nonempty urlencoded_derive_period Let_def)
qed

text \<open>
  The amended C4 at the symbol \<^verbatim>\<open>" aapl "\<close> with period \<^verbatim>\<open>5d\<close> and interval \<^verbatim>\<open>15m\<close>, and at a
  symbol and an interval beyond ASCII: a no-break space, \<^verbatim>\<open>b\<close> and an e with acute as the
  symbol, an e with acute as the interval. The symbol goes out as \<^verbatim>\<open>B\<close> and \<^verbatim>\<open>U+00C9\<close>, the
  interval as \<^verbatim>\<open>%C3%A9\<close>.
\<close>

theorem request_url_witness:
  "trim (ascii '' aapl '') \<noteq> []
   \<and> fst (fetchStockDataApi (net_const (NetFail (ascii ''Failed to fetch''))) (ascii '' aapl '')
            (ascii ''5d'') (ascii ''15m''))
       = [ConsoleLog (ascii ''Fetching data from: http://localhost:5000/api/stockdata/AAPL?period=5d&interval=15m''),
          HttpGet (ascii ''http://localhost:5000/api/stockdata/AAPL?period=5d&interval=15m'')]
   \<and> trim [0xA0, 0x62, 0xE9] \<noteq> []
   \<and> filter is_HttpGet
        (fst (fetchStockDataApi (net_const (NetFail (ascii ''Failed to fetch''))) [0xA0, 0x62, 0xE9]
                (ascii ''5d'') [0xE9]))
       = [HttpGet (ascii ''http://localhost:5000/api/stockdata/B'' @ [0xC9]
                    @ ascii ''?period=5d&interval=%C3%A9'')]"
proof -
  have h: "trim (ascii '' aapl '') \<noteq> []"
    by (simp add: trim_def isWhiteSpace_def WhiteSpace_points_def ascii_def)
  have k: "trim [0xA0, 0x62, 0xE9] \<noteq> []"
    by (simp add: trim_def isWhiteSpace_def WhiteSpace_points_def)
  from request_url [OF h, of "ascii ''5d''" "ascii ''15m''"
      "net_const (NetFail (ascii ''Failed to fetch''))"]
    request_url [OF k, of "ascii ''5d''" "[0xE9]" "net_const (NetFail (ascii ''Failed to fetch''))"]
    h k
  show ?thesis
    by (simp add: eval_defs del: map_of.simps)
qed

section \<open>The polling timer\<close>

lemma step_timers: "timers a = [] \<Longrightarrow> timers (step e a) = []"
  by (cases e)
     (simp_all add: step.simps render_fields effect_body_fields effect_cleanup_fields
        fetchData_settle_fields Let_def)

lemma step_ref: "pollingTimerRef a = None \<Longrightarrow> pollingTimerRef (step e a) = None"
  by (cases e)
     (simp_all add: step.simps render_fields effect_body_fields effect_cleanup_fields
        fetchData_settle_fields Let_def)

lemma run_timers: "timers a = [] \<Longrightarrow> timers (run evs a) = []"
  by (induction evs arbitrary: a) (simp_all add: run_Nil run_Cons step_timers)

lemma run_ref: "pollingTimerRef a = None \<Longrightarrow> pollingTimerRef (run evs a) = None"
  by (induction evs arbitrary: a) (simp_all add: run_Nil run_Cons step_ref)

text \<open>
  Claim C7 asks for exactly one armed 30000 ms repeating timer after a change of the ticker or
  the interval. The code arms none: in every run of the component the page has no active
  timer and the ref holds no handle. In particular, after the mount and a change of the ticker
  to \<^verbatim>\<open>MSFT\<close> there is no timer, and the polling callback of the last effect sits in the
  updater queue of the \<^verbatim>\<open>interval\<close> state, where line 35 put it.
\<close>

theorem no_timer_armed:
  "timers (run evs App_init) = [] \<and> pollingTimerRef (run evs App_init) = None
   \<and> timers (run [Mount, InputTicker (ascii ''MSFT'')] App_init) = []
   \<and> intervalQueue (run [Mount, InputTicker (ascii ''MSFT'')] App_init)
       = [Updater (ascii ''MSFT'') (PromiseVal 1)]"
proof -
  have "ascii ''MSFT'' \<noteq> DEFAULT_TICKER"
    by (simp add: DEFAULT_TICKER_def ascii_def)
  then have "intervalQueue (run [Mount, InputTicker (ascii ''MSFT'')] App_init)
       = [Updater (ascii ''MSFT'') (PromiseVal 1)]"
    by (simp add: run_def step.simps(2) render_def Let_def mounted effect_body_fields
          effect_cleanup_fields fetchData_start_fields)
  then show ?thesis
    by (simp add: run_timers run_ref App_init_def)
qed

end
